theory Spec2Isabelle
  imports Main "HOL-Library.Word"
begin

section \<open>Python values, exceptions and string conversions\<close>

text \<open>
  The tracing layer of the AWS API MCP server lives in two Python modules,
  \<^verbatim>\<open>core/common/tracing.py\<close> (the pluggable backends and the
  \<^verbatim>\<open>TraceManager\<close> facade) and \<^verbatim>\<open>core/common/otel.py\<close>
  (the older \<^verbatim>\<open>OTelTraceManager\<close>). Strings are lists of characters,
  Python's unbounded integers are \<open>nat\<close> or \<open>int\<close>, a dict literal is an
  association list in insertion order, and every raise is a value \<open>Inl e\<close>.
\<close>

text \<open>
  The exception classes that matter here. \<^verbatim>\<open>except Exception\<close> catches every
  class below but \<open>KeyboardInterrupt\<close> and \<open>GeneratorExit\<close>, which derive from
  \<^verbatim>\<open>BaseException\<close> only.
\<close>

datatype exc_class =
  ValueError | RuntimeError | ImportError | OtherException | KeyboardInterrupt | GeneratorExit

datatype pyexc = PyExc (exc_class: exc_class) (exc_msg: string)

fun isinstance_Exception :: "pyexc \<Rightarrow> bool" where
  "isinstance_Exception (PyExc KeyboardInterrupt m) = False"
| "isinstance_Exception (PyExc GeneratorExit m) = False"
| "isinstance_Exception (PyExc c m) = True"

datatype pyval = VStr string | VInt int | VBool bool | VNone

definition digit_char :: "nat \<Rightarrow> char" where
  "digit_char d = ''0123456789abcdef'' ! d"

text \<open>\<^verbatim>\<open>str(n)\<close> of a natural number: its decimal digits.\<close>

fun str_nat :: "nat \<Rightarrow> string" where
  "str_nat n = (if n < 10 then [digit_char n] else str_nat (n div 10) @ [digit_char (n mod 10)])"

declare str_nat.simps [simp del]

text \<open>\<^verbatim>\<open>format(n, 'x')\<close>: lowercase hexadecimal digits.\<close>

fun hex_nat :: "nat \<Rightarrow> string" where
  "hex_nat n = (if n < 16 then [digit_char n] else hex_nat (n div 16) @ [digit_char (n mod 16)])"

declare hex_nat.simps [simp del]

text \<open>
  \<^verbatim>\<open>format(n, '0Wx')\<close>: hexadecimal, padded on the left with zeros to at least
  \<open>W\<close> characters, never truncated.
\<close>

definition format_hex :: "nat \<Rightarrow> nat \<Rightarrow> string" where
  "format_hex w n = replicate (w - length (hex_nat n)) CHR ''0'' @ hex_nat n"

text \<open>\<^verbatim>\<open>str(value)\<close> for the attribute values a caller may pass.\<close>

fun py_str :: "pyval \<Rightarrow> string" where
  "py_str (VStr s) = s"
| "py_str (VInt i) = (if i < 0 then CHR ''-'' # str_nat (nat (- i)) else str_nat (nat i))"
| "py_str (VBool b) = (if b then ''True'' else ''False'')"
| "py_str VNone = ''None''"

text \<open>Reading digit strings back (used to state that the conversions lose nothing).\<close>

definition digit_val :: "char \<Rightarrow> nat" where
  "digit_val c = (let n = of_char c in if 48 \<le> n \<and> n \<le> (57::nat) then n - 48 else n - 87)"

definition nat_of_digits :: "nat \<Rightarrow> string \<Rightarrow> nat" where
  "nat_of_digits b s = foldl (\<lambda>acc c. acc * b + digit_val c) 0 s"

text \<open>The JSON-like structures \<^verbatim>\<open>get_resource_spans\<close> builds from dict and list literals.\<close>

datatype json = JStr string | JList "json list" | JObj "(string \<times> json) list"

text \<open>\<^verbatim>\<open>d[k]\<close> on such a structure.\<close>

fun field :: "string \<Rightarrow> json \<Rightarrow> json option" where
  "field k (JObj kvs) = map_of kvs k"
| "field k j = None"


section \<open>Spans, the clock and the tracer\<close>

text \<open>
  A span as the code reads it: \<^verbatim>\<open>get_span_context().trace_id\<close> (128 bits),
  \<^verbatim>\<open>.span_id\<close> (64 bits), \<^verbatim>\<open>name\<close>, \<^verbatim>\<open>start_time\<close>,
  \<^verbatim>\<open>end_time\<close> (\<open>None\<close> until the span is ended), \<^verbatim>\<open>attributes\<close>
  (string keys, values already passed through \<^verbatim>\<open>str\<close>) and \<^verbatim>\<open>status\<close>.
  \<open>is_sdk\<close> is the answer of \<^verbatim>\<open>isinstance(span, SDKSpan)\<close>.
\<close>

datatype status_code = UNSET | OK | ERROR

record status =
  status_code :: status_code
  description :: "string option"

record span =
  trace_id :: "128 word"
  span_id :: "64 word"
  span_name :: string
  start_time :: nat
  end_time :: "nat option"
  attributes :: "(string \<times> string) list"
  span_status :: status
  is_sdk :: bool

text \<open>
  \<^verbatim>\<open>time.time_ns()\<close>: the process clock, an arbitrary sequence of readings of which
  each call consumes the next.
\<close>

record clock =
  readings :: "nat \<Rightarrow> nat"
  reads :: nat

definition time_ns :: "clock \<Rightarrow> nat \<times> clock" where
  "time_ns c = (readings c (reads c), c\<lparr>reads := Suc (reads c)\<rparr>)"

text \<open>
  The tracer obtained from the OpenTelemetry provider: the identifiers it hands out (an
  arbitrary sequence) and whether its spans are SDK spans.
\<close>

record tracer =
  id_source :: "nat \<Rightarrow> 128 word \<times> 64 word"
  started :: nat
  sdk_spans :: bool

text \<open>\<^verbatim>\<open>span.set_attribute(key, value)\<close>: a dict store, in insertion order.\<close>

fun set_attribute :: "string \<Rightarrow> string \<Rightarrow> (string \<times> string) list \<Rightarrow> (string \<times> string) list" where
  "set_attribute k v [] = [(k, v)]"
| "set_attribute k v ((k', v') # kvs) =
     (if k = k' then (k, v) # kvs else (k', v') # set_attribute k v kvs)"

text \<open>
  \<^verbatim>\<open>for key, value in attributes.items(): span.set_attribute(key, str(value))\<close>
  (tracing.py lines 80-81, otel.py lines 96-97).
\<close>

fun set_attributes :: "(string \<times> pyval) list \<Rightarrow> span \<Rightarrow> span" where
  "set_attributes [] sp = sp"
| "set_attributes ((k, v) # kvs) sp =
     set_attributes kvs (sp\<lparr>attributes := set_attribute k (py_str v) (attributes sp)\<rparr>)"

text \<open>\<^verbatim>\<open>span.set_status(Status(StatusCode.ERROR, str(e)))\<close>.\<close>

definition set_status_error :: "pyexc \<Rightarrow> span \<Rightarrow> span" where
  "set_status_error e sp =
     sp\<lparr>span_status := \<lparr>status_code = ERROR, description = Some (exc_msg e)\<rparr>\<rparr>"

section \<open>The OTLP backend: state and export (tracing.py)\<close>

datatype exporter = ConsoleSpanExporter | OTLPSpanExporter string

record otlp_state =
  spans :: "span list"
  tracer :: "tracer option"
  span_processors :: "exporter list"
  clk :: clock

text \<open>\<^verbatim>\<open>span.end_time or time.time_ns()\<close>: the clock is read only when the end time is
  \<open>None\<close> or \<open>0\<close>.\<close>

definition end_time_or_now :: "span \<Rightarrow> clock \<Rightarrow> nat \<times> clock" where
  "end_time_or_now sp c =
     (case end_time sp of
        None \<Rightarrow> time_ns c
      | Some t \<Rightarrow> if t = 0 then time_ns c else (t, c))"

definition attributes_json :: "(string \<times> string) list \<Rightarrow> json" where
  "attributes_json kvs =
     JList (map (\<lambda>(k, v). JObj [(''key'', JStr k), (''value'', JObj [(''stringValue'', JStr v)])]) kvs)"

text \<open>The record appended for one span by the loop of \<^verbatim>\<open>OTLPBackend.get_resource_spans\<close>
  (tracing.py lines 97-113). The status code is the literal \<^verbatim>\<open>'STATUS_CODE_OK'\<close>.\<close>

definition span_json :: "span \<Rightarrow> clock \<Rightarrow> json \<times> clock" where
  "span_json sp c =
     (let (t_end, c') = end_time_or_now sp c in
      (JObj [(''traceId'', JStr (format_hex 32 (unat (trace_id sp)))),
             (''spanId'', JStr (format_hex 16 (unat (span_id sp)))),
             (''name'', JStr (span_name sp)),
             (''kind'', JStr ''SPAN_KIND_INTERNAL''),
             (''startTimeUnixNano'', JStr (str_nat (start_time sp))),
             (''endTimeUnixNano'', JStr (str_nat t_end)),
             (''attributes'', attributes_json (attributes sp)),
             (''status'', JObj [(''code'', JStr ''STATUS_CODE_OK'')])], c'))"

fun spans_json :: "span list \<Rightarrow> clock \<Rightarrow> json list \<times> clock" where
  "spans_json [] c = ([], c)"
| "spans_json (sp # sps) c =
     (let (j, c') = span_json sp c; (js, c'') = spans_json sps c' in (j # js, c''))"

definition resource_block :: json where
  "resource_block =
     JObj [(''attributes'',
        JList [JObj [(''key'', JStr ''service.name''),
                     (''value'', JObj [(''stringValue'', JStr ''aws-api-mcp-server'')])],
               JObj [(''key'', JStr ''service.version''),
                     (''value'', JObj [(''stringValue'', JStr ''0.2.14'')])]])]"

definition scope_block :: json where
  "scope_block = JObj [(''name'', JStr ''aws-api-mcp-server''), (''version'', JStr ''0.2.14'')]"

definition resource_spans_json :: "json list \<Rightarrow> json" where
  "resource_spans_json js =
     JObj [(''resource'', resource_block),
           (''scopeSpans'', JList [JObj [(''scope'', scope_block), (''spans'', JList js)]])]"

text \<open>\<^verbatim>\<open>OTLPBackend.get_resource_spans\<close> (tracing.py lines 95-128): serialise the
  buffer, then \<^verbatim>\<open>self.spans.clear()\<close>.\<close>

definition otlp_get_resource_spans :: "otlp_state \<Rightarrow> json \<times> otlp_state" where
  "otlp_get_resource_spans b =
     (let (js, c') = spans_json (spans b) (clk b) in
      (resource_spans_json js, b\<lparr>spans := [], clk := c'\<rparr>))"

text \<open>The span list of an export: \<^verbatim>\<open>result['scopeSpans'][0]['spans']\<close>.\<close>

fun exported_spans :: "json \<Rightarrow> json list option" where
  "exported_spans j =
     (case field ''scopeSpans'' j of
        Some (JList (sc # scs)) \<Rightarrow>
          (case field ''spans'' sc of Some (JList js) \<Rightarrow> Some js | _ \<Rightarrow> None)
      | _ \<Rightarrow> None)"

text \<open>The empty structure of the other two backends (tracing.py lines 43 and 180).\<close>

definition empty_resource_spans :: json where
  "empty_resource_spans = JObj [(''resource'', JObj []), (''scopeSpans'', JList [])]"

section \<open>The serialiser of otel.py\<close>

text \<open>\<^verbatim>\<open>OTelTraceManager.span_to_otlp_json\<close> (otel.py lines 187-206) builds the same
  record, but reads the status: \<^verbatim>\<open>'STATUS_CODE_OK' if span.status.status_code ==
  StatusCode.OK else 'STATUS_CODE_ERROR'\<close>.\<close>

definition span_to_otlp_json :: "span \<Rightarrow> clock \<Rightarrow> json \<times> clock" where
  "span_to_otlp_json sp c =
     (let (t_end, c') = end_time_or_now sp c in
      (JObj [(''traceId'', JStr (format_hex 32 (unat (trace_id sp)))),
             (''spanId'', JStr (format_hex 16 (unat (span_id sp)))),
             (''name'', JStr (span_name sp)),
             (''kind'', JStr ''SPAN_KIND_INTERNAL''),
             (''startTimeUnixNano'', JStr (str_nat (start_time sp))),
             (''endTimeUnixNano'', JStr (str_nat t_end)),
             (''attributes'', attributes_json (attributes sp)),
             (''status'', JObj [(''code'',
                JStr (if status_code (span_status sp) = OK then ''STATUS_CODE_OK''
                      else ''STATUS_CODE_ERROR''))])], c'))"


section \<open>Generator-based context managers\<close>

text \<open>
  Every \<^verbatim>\<open>create_span\<close> and \<^verbatim>\<open>TraceManager.trace\<close> is a generator function
  under \<^verbatim>\<open>@contextmanager\<close>. A generator is modelled by its program points: running
  it from the start, or resuming it at the \<^verbatim>\<open>yield\<close> where it is suspended (with
  \<^verbatim>\<open>next\<close>, or with \<^verbatim>\<open>throw(e)\<close>, which raises \<open>e\<close> at that
  \<^verbatim>\<open>yield\<close>), ends in the next \<^verbatim>\<open>yield\<close>, in a return or in an exception
  leaving the generator. The handle yielded is \<open>None\<close>, a span or a reference to a
  segment of the recorder.
\<close>

datatype handle = SpanH span | SegmentH nat

datatype 'pc gen_step = GYield "handle option" 'pc | GReturn | GRaise pyexc

datatype signal = Next | Throw pyexc

text \<open>\<^verbatim>\<open>gen.close()\<close>: raise \<^verbatim>\<open>GeneratorExit\<close> at the suspended \<^verbatim>\<open>yield\<close>;
  the result is the exception \<^verbatim>\<open>close\<close> itself raises, if any.\<close>

definition close_gen ::
  "('pc \<Rightarrow> signal \<Rightarrow> 's \<Rightarrow> 'pc gen_step \<times> 's) \<Rightarrow> 'pc \<Rightarrow> 's \<Rightarrow> pyexc option \<times> 's" where
  "close_gen resume pc s =
     (case resume pc (Throw (PyExc GeneratorExit [])) s of
        (GReturn, s') \<Rightarrow> (None, s')
      | (GRaise e, s') \<Rightarrow> (if exc_class e = GeneratorExit then None else Some e, s')
      | (GYield h pc', s') \<Rightarrow> (Some (PyExc RuntimeError ''generator ignored GeneratorExit''), s'))"

text \<open>\<^verbatim>\<open>_GeneratorContextManager.__enter__\<close> of the standard library's contextlib.\<close>

definition cm_enter ::
  "('s \<Rightarrow> 'pc gen_step \<times> 's) \<Rightarrow> 's \<Rightarrow> (pyexc + handle option \<times> 'pc) \<times> 's" where
  "cm_enter start s =
     (case start s of
        (GYield h pc, s') \<Rightarrow> (Inr (h, pc), s')
      | (GReturn, s') \<Rightarrow> (Inl (PyExc RuntimeError ''generator didn't yield''), s')
      | (GRaise e, s') \<Rightarrow> (Inl e, s'))"

text \<open>
  \<^verbatim>\<open>_GeneratorContextManager.__exit__\<close>: \<open>Inr True\<close> suppresses the exception of the
  \<^verbatim>\<open>with\<close> body, \<open>Inr False\<close> lets it propagate, \<open>Inl e\<close> is \<^verbatim>\<open>__exit__\<close>
  itself raising \<open>e\<close>. A generator that yields once more makes \<^verbatim>\<open>__exit__\<close> raise
  \<^verbatim>\<open>RuntimeError\<close>. Python compares the exception that comes back with the one thrown
  in by identity (\<^verbatim>\<open>exc is not value\<close>); the model compares the values.
\<close>

definition cm_exit ::
  "('pc \<Rightarrow> signal \<Rightarrow> 's \<Rightarrow> 'pc gen_step \<times> 's) \<Rightarrow> 'pc \<Rightarrow> pyexc option \<Rightarrow> 's \<Rightarrow> (pyexc + bool) \<times> 's" where
  "cm_exit resume pc exc s =
     (case exc of
        None \<Rightarrow>
          (case resume pc Next s of
             (GReturn, s') \<Rightarrow> (Inr False, s')
           | (GRaise e, s') \<Rightarrow> (Inl e, s')
           | (GYield h pc', s') \<Rightarrow>
               (case close_gen resume pc' s' of
                  (None, s'') \<Rightarrow> (Inl (PyExc RuntimeError ''generator didn't stop''), s'')
                | (Some e, s'') \<Rightarrow> (Inl e, s'')))
      | Some v \<Rightarrow>
          (case resume pc (Throw v) s of
             (GReturn, s') \<Rightarrow> (Inr True, s')
           | (GRaise e, s') \<Rightarrow> (if e = v then (Inr False, s') else (Inl e, s'))
           | (GYield h pc', s') \<Rightarrow>
               (case close_gen resume pc' s' of
                  (None, s'') \<Rightarrow>
                    (Inl (PyExc RuntimeError ''generator didn't stop after throw()''), s'')
                | (Some e, s'') \<Rightarrow> (Inl e, s''))))"

text \<open>
  \<^verbatim>\<open>with cm as h: body(h)\<close>. The body is the caller's operation: it returns a value or
  raises, and may change the state. The statement's value is \<open>Some r\<close> when the body
  returned \<open>r\<close>, \<open>None\<close> when the body's exception was suppressed.
\<close>

definition with_stmt ::
  "('s \<Rightarrow> (pyexc + handle option \<times> 'pc) \<times> 's) \<Rightarrow>
   ('pc \<Rightarrow> pyexc option \<Rightarrow> 's \<Rightarrow> (pyexc + bool) \<times> 's) \<Rightarrow>
   (handle option \<Rightarrow> 's \<Rightarrow> (pyexc + 'r) \<times> 's) \<Rightarrow> 's \<Rightarrow> (pyexc + 'r option) \<times> 's" where
  "with_stmt enter exit body s =
     (case enter s of
        (Inl e, s1) \<Rightarrow> (Inl e, s1)
      | (Inr (h, pc), s1) \<Rightarrow>
          (case body h s1 of
             (Inr r, s2) \<Rightarrow>
               (case exit pc None s2 of
                  (Inl e, s3) \<Rightarrow> (Inl e, s3)
                | (Inr b, s3) \<Rightarrow> (Inr (Some r), s3))
           | (Inl v, s2) \<Rightarrow>
               (case exit pc (Some v) s2 of
                  (Inl e, s3) \<Rightarrow> (Inl e, s3)
                | (Inr b, s3) \<Rightarrow> if b then (Inr None, s3) else (Inl v, s3))))"

section \<open>The No-op backend\<close>

text \<open>\<^verbatim>\<open>NoOpBackend.create_span\<close> (tracing.py lines 38-40): one \<^verbatim>\<open>yield None\<close>.\<close>

datatype noop_pc = NoOp_yield

definition noop_create_span_start :: "string \<Rightarrow> (string \<times> pyval) list \<Rightarrow> noop_pc gen_step" where
  "noop_create_span_start nm attrs = GYield None NoOp_yield"

fun noop_create_span_resume :: "noop_pc \<Rightarrow> signal \<Rightarrow> noop_pc gen_step" where
  "noop_create_span_resume NoOp_yield Next = GReturn"
| "noop_create_span_resume NoOp_yield (Throw e) = GRaise e"

section \<open>The OTLP backend: create_span\<close>

text \<open>\<^verbatim>\<open>self.tracer.start_span(name)\<close>: a fresh pair of identifiers and the start time.\<close>

definition start_span :: "tracer \<Rightarrow> string \<Rightarrow> otlp_state \<Rightarrow> span \<times> otlp_state" where
  "start_span tr nm b =
     (let (t, c') = time_ns (clk b); (tid, sid) = id_source tr (started tr) in
      (\<lparr>trace_id = tid, span_id = sid, span_name = nm, start_time = t, end_time = None,
        attributes = [], span_status = \<lparr>status_code = UNSET, description = None\<rparr>,
        is_sdk = sdk_spans tr\<rparr>,
       b\<lparr>tracer := Some (tr\<lparr>started := Suc (started tr)\<rparr>), clk := c'\<rparr>))"

text \<open>The \<^verbatim>\<open>finally\<close> block (tracing.py lines 89-93): \<^verbatim>\<open>span.end()\<close>, then the
  append when the span is an SDK span.\<close>

definition span_end :: "span \<Rightarrow> clock \<Rightarrow> span \<times> clock" where
  "span_end sp c =
     (case end_time sp of
        None \<Rightarrow> (let (t, c') = time_ns c in (sp\<lparr>end_time := Some t\<rparr>, c'))
      | Some t \<Rightarrow> (sp, c))"

text \<open>\<^verbatim>\<open>self.spans.append(span)\<close>.\<close>

definition buffer_append :: "span \<Rightarrow> otlp_state \<Rightarrow> otlp_state" where
  "buffer_append sp b = b\<lparr>spans := spans b @ [sp]\<rparr>"

definition end_and_append :: "span \<Rightarrow> otlp_state \<Rightarrow> otlp_state" where
  "end_and_append sp b =
     (let (sp', c') = span_end sp (clk b) in
      if is_sdk sp' then buffer_append sp' (b\<lparr>clk := c'\<rparr>) else b\<lparr>clk := c'\<rparr>)"

text \<open>\<^verbatim>\<open>OTLPBackend.create_span\<close> (tracing.py lines 73-93). The generator's frame keeps
  the span between the \<^verbatim>\<open>yield\<close> and the \<^verbatim>\<open>finally\<close> block.\<close>

datatype otlp_pc = OTLP_yield_none | OTLP_yield_span span

definition otlp_create_span_start ::
  "string \<Rightarrow> (string \<times> pyval) list \<Rightarrow> otlp_state \<Rightarrow> otlp_pc gen_step \<times> otlp_state" where
  "otlp_create_span_start nm attrs b =
     (case tracer b of
        None \<Rightarrow> (GYield None OTLP_yield_none, b)
      | Some tr \<Rightarrow>
          (let (sp, b') = start_span tr nm b; sp' = set_attributes attrs sp in
           (GYield (Some (SpanH sp')) (OTLP_yield_span sp'), b')))"

fun otlp_create_span_resume :: "otlp_pc \<Rightarrow> signal \<Rightarrow> otlp_state \<Rightarrow> otlp_pc gen_step \<times> otlp_state" where
  "otlp_create_span_resume OTLP_yield_none Next b = (GReturn, b)"
| "otlp_create_span_resume OTLP_yield_none (Throw e) b = (GRaise e, b)"
| "otlp_create_span_resume (OTLP_yield_span sp) Next b = (GReturn, end_and_append sp b)"
| "otlp_create_span_resume (OTLP_yield_span sp) (Throw e) b =
     (GRaise e, end_and_append (if isinstance_Exception e then set_status_error e sp else sp) b)"


section \<open>The segment recorder\<close>

text \<open>
  Modelled from the spec: the recorder object (\<^verbatim>\<open>aws_xray_sdk.core.xray_recorder\<close>)
  is a library the sources only call. Following the spec's data model, it keeps the
  entities that are open (the root segment first, then its open subsegments) and the
  entities it has finalized, in the order they were closed. An entity carries its
  annotations, its metadata and its exception list. Opening a root segment discards any
  stale open entity; a subsegment can only be opened under an open segment; closing an
  entity moves it to the finalized ones. \<open>rec_fault\<close>, when set, is the exception the
  recorder's entry points raise (a recorder that cannot create segments).
\<close>

record entity =
  ent_id :: nat
  ent_name :: string
  is_subsegment :: bool
  annotations :: "string \<rightharpoonup> string"
  metadata :: "string \<rightharpoonup> string"
  ent_exceptions :: "pyexc list"

record recorder =
  entities :: "entity list"
  emitted :: "entity list"
  next_id :: nat
  rec_fault :: "pyexc option"

definition new_entity :: "nat \<Rightarrow> string \<Rightarrow> bool \<Rightarrow> entity" where
  "new_entity i nm sub =
     \<lparr>ent_id = i, ent_name = nm, is_subsegment = sub, annotations = Map.empty,
      metadata = Map.empty, ent_exceptions = []\<rparr>"

definition update_entity :: "nat \<Rightarrow> (entity \<Rightarrow> entity) \<Rightarrow> recorder \<Rightarrow> recorder" where
  "update_entity i f r = r\<lparr>entities := map (\<lambda>e. if ent_id e = i then f e else e) (entities r)\<rparr>"

definition put_annotation :: "nat \<Rightarrow> string \<Rightarrow> string \<Rightarrow> recorder \<Rightarrow> recorder" where
  "put_annotation i k v = update_entity i (\<lambda>e. e\<lparr>annotations := (annotations e)(k \<mapsto> v)\<rparr>)"

definition put_metadata :: "nat \<Rightarrow> string \<Rightarrow> string \<Rightarrow> recorder \<Rightarrow> recorder" where
  "put_metadata i k v = update_entity i (\<lambda>e. e\<lparr>metadata := (metadata e)(k \<mapsto> v)\<rparr>)"

definition add_exception :: "nat \<Rightarrow> pyexc \<Rightarrow> recorder \<Rightarrow> recorder" where
  "add_exception i x = update_entity i (\<lambda>e. e\<lparr>ent_exceptions := ent_exceptions e @ [x]\<rparr>)"

text \<open>\<^verbatim>\<open>recorder.current_segment()\<close>: the open root segment, or \<open>None\<close>.\<close>

definition current_segment :: "recorder \<Rightarrow> pyexc + entity option" where
  "current_segment r =
     (case rec_fault r of
        Some x \<Rightarrow> Inl x
      | None \<Rightarrow> Inr (case entities r of [] \<Rightarrow> None | e # es \<Rightarrow> Some e))"

text \<open>\<^verbatim>\<open>recorder.in_segment(name)\<close>, entering and leaving. Leaving attaches the body's
  exception, if any, closes the segment and lets the exception propagate.\<close>

definition in_segment_enter :: "string \<Rightarrow> recorder \<Rightarrow> (pyexc + nat) \<times> recorder" where
  "in_segment_enter nm r =
     (case rec_fault r of
        Some x \<Rightarrow> (Inl x, r)
      | None \<Rightarrow>
          (Inr (next_id r),
           r\<lparr>entities := [new_entity (next_id r) nm False], next_id := Suc (next_id r)\<rparr>))"

definition end_segment :: "recorder \<Rightarrow> recorder" where
  "end_segment r =
     (case entities r of
        [] \<Rightarrow> r
      | e # es \<Rightarrow> r\<lparr>entities := [], emitted := emitted r @ [e]\<rparr>)"

definition in_segment_exit :: "nat \<Rightarrow> pyexc option \<Rightarrow> recorder \<Rightarrow> recorder" where
  "in_segment_exit i exc r =
     end_segment (case exc of None \<Rightarrow> r | Some x \<Rightarrow> add_exception i x r)"

text \<open>\<^verbatim>\<open>recorder.in_subsegment(name)\<close>: the subsegment is \<open>None\<close> when no segment is
  open.\<close>

definition in_subsegment_enter :: "string \<Rightarrow> recorder \<Rightarrow> (pyexc + nat option) \<times> recorder" where
  "in_subsegment_enter nm r =
     (case rec_fault r of
        Some x \<Rightarrow> (Inl x, r)
      | None \<Rightarrow>
          (if entities r = [] then (Inr None, r)
           else (Inr (Some (next_id r)),
                 r\<lparr>entities := entities r @ [new_entity (next_id r) nm True],
                   next_id := Suc (next_id r)\<rparr>)))"

definition end_subsegment :: "recorder \<Rightarrow> recorder" where
  "end_subsegment r =
     (if entities r \<noteq> [] \<and> is_subsegment (last (entities r))
      then r\<lparr>entities := butlast (entities r), emitted := emitted r @ [last (entities r)]\<rparr>
      else r)"

definition in_subsegment_exit :: "nat option \<Rightarrow> pyexc option \<Rightarrow> recorder \<Rightarrow> recorder" where
  "in_subsegment_exit sub exc r =
     (case sub of
        None \<Rightarrow> r
      | Some i \<Rightarrow> end_subsegment (case exc of None \<Rightarrow> r | Some x \<Rightarrow> add_exception i x r))"

section \<open>The segment-recorder backend\<close>

text \<open>\<^verbatim>\<open>str.replace\<close> with one-character arguments, and
  \<^verbatim>\<open>key.replace('.', '_').replace('-', '_')\<close>.\<close>

definition replace_char :: "char \<Rightarrow> char \<Rightarrow> string \<Rightarrow> string" where
  "replace_char a b s = map (\<lambda>c. if c = a then b else c) s"

definition clean_key :: "string \<Rightarrow> string" where
  "clean_key key = replace_char CHR ''-'' CHR ''_'' (replace_char CHR ''.'' CHR ''_'' key)"

text \<open>One step of the routing loop (tracing.py lines 151-155 and 166-170, otel.py lines
  123-127), on the entity \<open>i\<close>.\<close>

definition route_attribute :: "nat \<Rightarrow> string \<times> pyval \<Rightarrow> recorder \<Rightarrow> recorder" where
  "route_attribute i kv r =
     (let clean = clean_key (fst kv) in
      if length (py_str (snd kv)) \<le> 50 then put_annotation i clean (py_str (snd kv)) r
      else put_metadata i clean (py_str (snd kv)) r)"

text \<open>\<^verbatim>\<open>for key, value in attributes.items(): ...\<close>.\<close>

fun route_attributes :: "nat \<Rightarrow> (string \<times> pyval) list \<Rightarrow> recorder \<Rightarrow> recorder" where
  "route_attributes i [] r = r"
| "route_attributes i (kv # kvs) r = route_attributes i kvs (route_attribute i kv r)"

record xray_state =
  recorder :: "recorder option"

text \<open>The program points of \<^verbatim>\<open>XRayBackend.create_span\<close> (tracing.py lines 141-177):
  the six \<^verbatim>\<open>yield\<close>s at lines 144, 156, 159, 171, 174 and 177.\<close>

datatype xray_pc =
  XRay_no_recorder | XRay_segment nat | XRay_segment_failed
  | XRay_subsegment "nat option" | XRay_no_segment | XRay_subsegment_failed

text \<open>\<^verbatim>\<open>except Exception as e: logger.debug(...); yield None\<close>.\<close>

definition xray_except :: "xray_pc \<Rightarrow> pyexc \<Rightarrow> xray_state \<Rightarrow> xray_pc gen_step \<times> xray_state" where
  "xray_except pc e x = (if isinstance_Exception e then (GYield None pc, x) else (GRaise e, x))"

definition on_recorder :: "(recorder \<Rightarrow> recorder) \<Rightarrow> xray_state \<Rightarrow> xray_state" where
  "on_recorder f x = (case recorder x of None \<Rightarrow> x | Some r \<Rightarrow> x\<lparr>recorder := Some (f r)\<rparr>)"

definition xray_create_span_start ::
  "string \<Rightarrow> (string \<times> pyval) list \<Rightarrow> xray_state \<Rightarrow> xray_pc gen_step \<times> xray_state" where
  "xray_create_span_start nm attrs x =
     (case recorder x of
        None \<Rightarrow> (GYield None XRay_no_recorder, x)
      | Some r \<Rightarrow>
          if nm = ''aws_cli_command'' then
            (case in_segment_enter nm r of
               (Inl e, r') \<Rightarrow> xray_except XRay_segment_failed e (x\<lparr>recorder := Some r'\<rparr>)
             | (Inr i, r') \<Rightarrow>
                 (GYield (Some (SegmentH i)) (XRay_segment i),
                  x\<lparr>recorder := Some (route_attributes i attrs
                       (put_annotation i ''service'' ''aws-api-mcp-server'' r'))\<rparr>))
          else
            (case current_segment r of
               Inl e \<Rightarrow> xray_except XRay_subsegment_failed e x
             | Inr None \<Rightarrow> (GYield None XRay_no_segment, x)
             | Inr (Some seg) \<Rightarrow>
                 (case in_subsegment_enter nm r of
                    (Inl e, r') \<Rightarrow> xray_except XRay_subsegment_failed e (x\<lparr>recorder := Some r'\<rparr>)
                  | (Inr None, r') \<Rightarrow>
                      (if attrs = [] then (GYield None (XRay_subsegment None), x\<lparr>recorder := Some r'\<rparr>)
                       else xray_except XRay_subsegment_failed
                              (PyExc OtherException ''NoneType has no attribute put_annotation'')
                              (x\<lparr>recorder := Some r'\<rparr>))
                  | (Inr (Some i), r') \<Rightarrow>
                      (GYield (Some (SegmentH i)) (XRay_subsegment (Some i)),
                       x\<lparr>recorder := Some (route_attributes i attrs r')\<rparr>))))"

fun xray_create_span_resume :: "xray_pc \<Rightarrow> signal \<Rightarrow> xray_state \<Rightarrow> xray_pc gen_step \<times> xray_state" where
  "xray_create_span_resume XRay_no_recorder Next x = (GReturn, x)"
| "xray_create_span_resume XRay_no_recorder (Throw e) x = (GRaise e, x)"
| "xray_create_span_resume (XRay_segment i) Next x = (GReturn, on_recorder (in_segment_exit i None) x)"
| "xray_create_span_resume (XRay_segment i) (Throw e) x =
     xray_except XRay_segment_failed e (on_recorder (in_segment_exit i (Some e)) x)"
| "xray_create_span_resume XRay_segment_failed Next x = (GReturn, x)"
| "xray_create_span_resume XRay_segment_failed (Throw e) x = (GRaise e, x)"
| "xray_create_span_resume (XRay_subsegment sub) Next x =
     (GReturn, on_recorder (in_subsegment_exit sub None) x)"
| "xray_create_span_resume (XRay_subsegment sub) (Throw e) x =
     xray_except XRay_subsegment_failed e (on_recorder (in_subsegment_exit sub (Some e)) x)"
| "xray_create_span_resume XRay_no_segment Next x = (GReturn, x)"
| "xray_create_span_resume XRay_no_segment (Throw e) x = xray_except XRay_subsegment_failed e x"
| "xray_create_span_resume XRay_subsegment_failed Next x = (GReturn, x)"
| "xray_create_span_resume XRay_subsegment_failed (Throw e) x = (GRaise e, x)"

section \<open>Backends behind one interface, and the TraceManager\<close>

datatype trace_backend = NoOpBackend | OTLPBackend otlp_state | XRayBackend xray_state

datatype span_pc = NoOpPc noop_pc | OTLPPc otlp_pc | XRayPc xray_pc

definition create_span_start ::
  "string \<Rightarrow> (string \<times> pyval) list \<Rightarrow> trace_backend \<Rightarrow> span_pc gen_step \<times> trace_backend" where
  "create_span_start nm attrs b =
     (case b of
        NoOpBackend \<Rightarrow> (map_gen_step NoOpPc (noop_create_span_start nm attrs), NoOpBackend)
      | OTLPBackend ob \<Rightarrow>
          (case otlp_create_span_start nm attrs ob of (g, ob') \<Rightarrow> (map_gen_step OTLPPc g, OTLPBackend ob'))
      | XRayBackend xb \<Rightarrow>
          (case xray_create_span_start nm attrs xb of (g, xb') \<Rightarrow> (map_gen_step XRayPc g, XRayBackend xb')))"

text \<open>Resuming a generator runs the method of the backend that created it; a frame of
  another backend class cannot occur and is answered with an exception.\<close>

fun create_span_resume :: "span_pc \<Rightarrow> signal \<Rightarrow> trace_backend \<Rightarrow> span_pc gen_step \<times> trace_backend" where
  "create_span_resume (NoOpPc pc) sg NoOpBackend =
     (map_gen_step NoOpPc (noop_create_span_resume pc sg), NoOpBackend)"
| "create_span_resume (OTLPPc pc) sg (OTLPBackend ob) =
     (case otlp_create_span_resume pc sg ob of (g, ob') \<Rightarrow> (map_gen_step OTLPPc g, OTLPBackend ob'))"
| "create_span_resume (XRayPc pc) sg (XRayBackend xb) =
     (case xray_create_span_resume pc sg xb of (g, xb') \<Rightarrow> (map_gen_step XRayPc g, XRayBackend xb'))"
| "create_span_resume pc sg b = (GRaise (PyExc OtherException ''foreign generator frame''), b)"

text \<open>\<^verbatim>\<open>get_resource_spans\<close> of the three backends (tracing.py lines 42-43, 95-128,
  179-180).\<close>

fun get_resource_spans :: "trace_backend \<Rightarrow> json \<times> trace_backend" where
  "get_resource_spans NoOpBackend = (empty_resource_spans, NoOpBackend)"
| "get_resource_spans (OTLPBackend ob) =
     (case otlp_get_resource_spans ob of (j, ob') \<Rightarrow> (j, OTLPBackend ob'))"
| "get_resource_spans (XRayBackend xb) = (empty_resource_spans, XRayBackend xb)"

text \<open>\<^verbatim>\<open>with backend.create_span(name, attributes) as h: body(h)\<close>.\<close>

definition with_create_span ::
  "string \<Rightarrow> (string \<times> pyval) list \<Rightarrow> (handle option \<Rightarrow> trace_backend \<Rightarrow> (pyexc + 'r) \<times> trace_backend) \<Rightarrow>
   trace_backend \<Rightarrow> (pyexc + 'r option) \<times> trace_backend" where
  "with_create_span nm attrs body =
     with_stmt (cm_enter (create_span_start nm attrs)) (cm_exit create_span_resume) body"

record trace_manager =
  backend :: trace_backend

text \<open>\<^verbatim>\<open>TraceManager.trace\<close> (tracing.py lines 187-194): the \<^verbatim>\<open>yield span\<close> of line
  191 sits inside the \<^verbatim>\<open>with\<close> statement on the backend's context manager, all of it
  inside \<^verbatim>\<open>try ... except Exception\<close>, whose handler has the \<^verbatim>\<open>yield None\<close> of
  line 194.\<close>

datatype trace_pc = Trace_yield_span span_pc | Trace_yield_none

definition trace_except :: "pyexc \<Rightarrow> trace_manager \<Rightarrow> trace_pc gen_step \<times> trace_manager" where
  "trace_except e m =
     (if isinstance_Exception e then (GYield None Trace_yield_none, m) else (GRaise e, m))"

definition trace_start ::
  "string \<Rightarrow> (string \<times> pyval) list \<Rightarrow> trace_manager \<Rightarrow> trace_pc gen_step \<times> trace_manager" where
  "trace_start operation attrs m =
     (case cm_enter (create_span_start operation attrs) (backend m) of
        (Inl e, b') \<Rightarrow> trace_except e (m\<lparr>backend := b'\<rparr>)
      | (Inr (h, pc), b') \<Rightarrow> (GYield h (Trace_yield_span pc), m\<lparr>backend := b'\<rparr>))"

fun trace_resume :: "trace_pc \<Rightarrow> signal \<Rightarrow> trace_manager \<Rightarrow> trace_pc gen_step \<times> trace_manager" where
  "trace_resume (Trace_yield_span pc) Next m =
     (case cm_exit create_span_resume pc None (backend m) of
        (Inl e, b') \<Rightarrow> trace_except e (m\<lparr>backend := b'\<rparr>)
      | (Inr suppress, b') \<Rightarrow> (GReturn, m\<lparr>backend := b'\<rparr>))"
| "trace_resume (Trace_yield_span pc) (Throw v) m =
     (case cm_exit create_span_resume pc (Some v) (backend m) of
        (Inl e, b') \<Rightarrow> trace_except e (m\<lparr>backend := b'\<rparr>)
      | (Inr suppress, b') \<Rightarrow>
          if suppress then (GReturn, m\<lparr>backend := b'\<rparr>) else trace_except v (m\<lparr>backend := b'\<rparr>))"
| "trace_resume Trace_yield_none Next m = (GReturn, m)"
| "trace_resume Trace_yield_none (Throw e) m = (GRaise e, m)"

text \<open>\<^verbatim>\<open>with trace_manager.trace(operation, **attributes) as h: body(h)\<close>.\<close>

definition with_trace ::
  "string \<Rightarrow> (string \<times> pyval) list \<Rightarrow> (handle option \<Rightarrow> trace_manager \<Rightarrow> (pyexc + 'r) \<times> trace_manager) \<Rightarrow>
   trace_manager \<Rightarrow> (pyexc + 'r option) \<times> trace_manager" where
  "with_trace operation attrs body =
     with_stmt (cm_enter (trace_start operation attrs)) (cm_exit trace_resume) body"

text \<open>\<^verbatim>\<open>TraceManager.get_resource_spans\<close> (tracing.py lines 230-231).\<close>

definition manager_get_resource_spans :: "trace_manager \<Rightarrow> json \<times> trace_manager" where
  "manager_get_resource_spans m =
     (case get_resource_spans (backend m) of (j, b') \<Rightarrow> (j, m\<lparr>backend := b'\<rparr>))"


section \<open>Construction and backend selection\<close>

text \<open>
  What construction reads from the process: the environment variables, whether the
  OpenTelemetry and X-Ray packages can be imported, the exception (if any) raised while
  the network exporter for an endpoint is built and attached (tracing.py lines 62-63),
  the tracer the provider returns, the SDK's recorder and the clock.
\<close>

record process_env =
  environ :: "string \<rightharpoonup> string"
  otel_importable :: bool
  otlp_exporter_fault :: "string \<Rightarrow> pyexc option"
  otel_tracer :: tracer
  xray_importable :: bool
  xray_recorder :: recorder
  process_clock :: clock

text \<open>\<^verbatim>\<open>os.getenv(key, default)\<close>.\<close>

definition getenv :: "(string \<rightharpoonup> string) \<Rightarrow> string \<Rightarrow> string \<Rightarrow> string" where
  "getenv env k d = (case env k of None \<Rightarrow> d | Some v \<Rightarrow> v)"

text \<open>\<^verbatim>\<open>str.lower()\<close> on ASCII text: the capital letters \<open>A\<close> to \<open>Z\<close> are mapped to
  their small forms, every other character is kept.\<close>

definition char_lower :: "char \<Rightarrow> char" where
  "char_lower c =
     (case map_of (zip ''ABCDEFGHIJKLMNOPQRSTUVWXYZ'' ''abcdefghijklmnopqrstuvwxyz'') c of
        None \<Rightarrow> c
      | Some l \<Rightarrow> l)"

definition lower :: "string \<Rightarrow> string" where
  "lower s = map char_lower s"

text \<open>\<^verbatim>\<open>OTLPBackend.__init__\<close> (tracing.py lines 48-71). An \<^verbatim>\<open>ImportError\<close> of the
  imports is caught by the outer handler; whatever \<^verbatim>\<open>Exception\<close> the network exporter
  raises is caught by the inner one; an exception outside \<^verbatim>\<open>Exception\<close> leaves the
  constructor.\<close>

definition otlp_init :: "process_env \<Rightarrow> pyexc + otlp_state" where
  "otlp_init env =
     (if \<not> otel_importable env
      then Inr \<lparr>spans = [], tracer = None, span_processors = [], clk = process_clock env\<rparr>
      else
        (let endpoint = getenv (environ env) ''OTEL_EXPORTER_OTLP_ENDPOINT'' ''http://localhost:4317''
         in case otlp_exporter_fault env endpoint of
              None \<Rightarrow>
                Inr \<lparr>spans = [], tracer = Some (otel_tracer env),
                     span_processors = [ConsoleSpanExporter, OTLPSpanExporter endpoint],
                     clk = process_clock env\<rparr>
            | Some e \<Rightarrow>
                if isinstance_Exception e
                then Inr \<lparr>spans = [], tracer = Some (otel_tracer env),
                          span_processors = [ConsoleSpanExporter], clk = process_clock env\<rparr>
                else Inl e))"

text \<open>\<^verbatim>\<open>XRayBackend.__init__\<close> (tracing.py lines 132-139).\<close>

definition xray_init :: "process_env \<Rightarrow> xray_state" where
  "xray_init env =
     (if xray_importable env then \<lparr>recorder = Some (xray_recorder env)\<rparr> else \<lparr>recorder = None\<rparr>)"

text \<open>\<^verbatim>\<open>get_trace_backend\<close> (tracing.py lines 234-241).\<close>

definition get_trace_backend :: "process_env \<Rightarrow> pyexc + trace_backend" where
  "get_trace_backend env =
     (let backend_type = lower (getenv (environ env) ''AWS_MCP_TRACING_BACKEND'' ''disabled'') in
      if backend_type = ''otlp'' then map_sum id OTLPBackend (otlp_init env)
      else if backend_type = ''xray'' then Inr (XRayBackend (xray_init env))
      else Inr NoOpBackend)"

text \<open>\<^verbatim>\<open>trace_manager = TraceManager(get_trace_backend())\<close> (tracing.py line 243).\<close>

definition make_trace_manager :: "process_env \<Rightarrow> pyexc + trace_manager" where
  "make_trace_manager env = map_sum id (\<lambda>b. \<lparr>backend = b\<rparr>) (get_trace_backend env)"

text \<open>The class of a backend object.\<close>

datatype backend_class = NoOpClass | OTLPClass | XRayClass

fun class_of :: "trace_backend \<Rightarrow> backend_class" where
  "class_of NoOpBackend = NoOpClass"
| "class_of (OTLPBackend ob) = OTLPClass"
| "class_of (XRayBackend xb) = XRayClass"

section \<open>Sequences of calls\<close>

text \<open>
  A call on a backend: a \<^verbatim>\<open>with backend.create_span(name, attributes) as h\<close> scope
  whose body either returns the handle it was given or raises a fault, or a
  \<^verbatim>\<open>get_resource_spans()\<close>.
\<close>

datatype call = CreateSpan string "(string \<times> pyval) list" "pyexc option" | GetResourceSpans

datatype call_result = Scope "pyexc + handle option option" | Spans json

definition plain_body :: "pyexc option \<Rightarrow> handle option \<Rightarrow> 's \<Rightarrow> (pyexc + handle option) \<times> 's" where
  "plain_body fault h s = (case fault of None \<Rightarrow> (Inr h, s) | Some e \<Rightarrow> (Inl e, s))"

fun run_call :: "call \<Rightarrow> trace_backend \<Rightarrow> call_result \<times> trace_backend" where
  "run_call (CreateSpan nm attrs fault) b =
     (case with_create_span nm attrs (plain_body fault) b of (r, b') \<Rightarrow> (Scope r, b'))"
| "run_call GetResourceSpans b = (case get_resource_spans b of (j, b') \<Rightarrow> (Spans j, b'))"

fun run_calls :: "call list \<Rightarrow> trace_backend \<Rightarrow> call_result list \<times> trace_backend" where
  "run_calls [] b = ([], b)"
| "run_calls (c # cs) b =
     (case run_call c b of (r, b') \<Rightarrow> (case run_calls cs b' of (rs, b'') \<Rightarrow> (r # rs, b'')))"

text \<open>
  What happens to the OTLP buffer: a completed span is appended, or the buffer is
  exported. Each export is listed with the buffer it found.
\<close>

datatype buffer_event = Append span | Export

fun run_events :: "buffer_event list \<Rightarrow> otlp_state \<Rightarrow> (json \<times> span list) list \<times> otlp_state" where
  "run_events [] b = ([], b)"
| "run_events (Append sp # evs) b = run_events evs (buffer_append sp b)"
| "run_events (Export # evs) b =
     (case otlp_get_resource_spans b of
        (j, b') \<Rightarrow> (case run_events evs b' of (outs, b'') \<Rightarrow> ((j, spans b) # outs, b'')))"

fun appended :: "buffer_event list \<Rightarrow> span list" where
  "appended [] = []"
| "appended (Append sp # evs) = sp # appended evs"
| "appended (Export # evs) = appended evs"

text \<open>How many spans or segments a backend has finalized: the buffered spans of the OTLP
  backend, the finalized entities of the recorder.\<close>

fun finalized :: "trace_backend \<Rightarrow> nat" where
  "finalized NoOpBackend = 0"
| "finalized (OTLPBackend ob) = length (spans ob)"
| "finalized (XRayBackend xb) = (case recorder xb of None \<Rightarrow> 0 | Some r \<Rightarrow> length (emitted r))"


section \<open>Views used in the statements\<close>

text \<open>The segment set-up of \<^verbatim>\<open>OTelTraceManager.trace_operation\<close> (otel.py lines
  118-127): two fixed annotations, then the same routing loop under
  \<^verbatim>\<open>if attributes:\<close>.\<close>

definition otel_configure_segment ::
  "nat \<Rightarrow> string \<Rightarrow> (string \<times> pyval) list option \<Rightarrow> recorder \<Rightarrow> recorder" where
  "otel_configure_segment i nm attrs r =
     (let r' = put_annotation i ''service'' ''aws-api-mcp-server'' (put_annotation i ''operation'' nm r)
      in case attrs of
           None \<Rightarrow> r'
         | Some kvs \<Rightarrow> if kvs = [] then r' else route_attributes i kvs r')"

text \<open>The routing loop as it acts on the one entity it addresses.\<close>

definition route_entity_step :: "entity \<Rightarrow> string \<times> pyval \<Rightarrow> entity" where
  "route_entity_step e kv =
     (if length (py_str (snd kv)) \<le> 50
      then e\<lparr>annotations := (annotations e)(clean_key (fst kv) \<mapsto> py_str (snd kv))\<rparr>
      else e\<lparr>metadata := (metadata e)(clean_key (fst kv) \<mapsto> py_str (snd kv))\<rparr>)"

definition route_entity :: "(string \<times> pyval) list \<Rightarrow> entity \<Rightarrow> entity" where
  "route_entity kvs e = foldl route_entity_step e kvs"

text \<open>Entity identifiers are handed out in increasing order, so those of the open entities
  lie below the next one.\<close>

definition fresh_ids :: "recorder \<Rightarrow> bool" where
  "fresh_ids r = list_all (\<lambda>e. ent_id e < next_id r) (entities r)"

section \<open>Concrete inputs\<close>

text \<open>A tracer, a clock, a recorder and an environment on which the model is run.\<close>

definition example_tracer :: tracer where
  "example_tracer = \<lparr>id_source = (\<lambda>n. (255, 18)), started = 0, sdk_spans = True\<rparr>"

definition example_clock :: clock where
  "example_clock = \<lparr>readings = (\<lambda>n. 100 + n), reads = 0\<rparr>"

definition example_otlp :: otlp_state where
  "example_otlp =
     \<lparr>spans = [], tracer = Some example_tracer, span_processors = [ConsoleSpanExporter],
      clk = example_clock\<rparr>"

definition example_span :: span where
  "example_span =
     \<lparr>trace_id = 255, span_id = 18, span_name = ''op'', start_time = 100, end_time = Some 101,
      attributes = [(''k'', ''v'')],
      span_status = \<lparr>status_code = ERROR, description = Some ''boom''\<rparr>, is_sdk = True\<rparr>"

definition example_recorder :: recorder where
  "example_recorder = \<lparr>entities = [], emitted = [], next_id = 0, rec_fault = None\<rparr>"

definition example_env :: process_env where
  "example_env =
     \<lparr>environ = Map.empty, otel_importable = True, otlp_exporter_fault = (\<lambda>ep. None),
      otel_tracer = example_tracer, xray_importable = True, xray_recorder = example_recorder,
      process_clock = example_clock\<rparr>"

text \<open>The buffer of a backend, for reading results.\<close>

fun buffer :: "trace_backend \<Rightarrow> span list" where
  "buffer (OTLPBackend ob) = spans ob"
| "buffer b = []"

text \<open>The open entity with a given identifier.\<close>

definition entity_of :: "nat \<Rightarrow> recorder \<Rightarrow> entity option" where
  "entity_of i r = find (\<lambda>e. ent_id e = i) (entities r)"

section \<open>Digit strings\<close>

lemma digit_val_digit_char: "d < 16 \<Longrightarrow> digit_val (digit_char d) = d"
proof -
  assume "d < 16"
  then have "d = 0 \<or> d = 1 \<or> d = 2 \<or> d = 3 \<or> d = 4 \<or> d = 5 \<or> d = 6 \<or> d = 7 \<or> d = 8
      \<or> d = 9 \<or> d = 10 \<or> d = 11 \<or> d = 12 \<or> d = 13 \<or> d = 14 \<or> d = 15" by arith
  then show ?thesis
    by (elim disjE) (simp_all add: digit_char_def digit_val_def)
qed

lemma digit_char_hex: "d < 16 \<Longrightarrow> digit_char d \<in> set ''0123456789abcdef''"
proof -
  assume "d < 16"
  then have "d = 0 \<or> d = 1 \<or> d = 2 \<or> d = 3 \<or> d = 4 \<or> d = 5 \<or> d = 6 \<or> d = 7 \<or> d = 8
      \<or> d = 9 \<or> d = 10 \<or> d = 11 \<or> d = 12 \<or> d = 13 \<or> d = 14 \<or> d = 15" by arith
  then show ?thesis
    by (elim disjE) (simp_all add: digit_char_def)
qed

lemma digit_char_dec: "d < 10 \<Longrightarrow> digit_char d \<in> set ''0123456789''"
proof -
  assume "d < 10"
  then have "d = 0 \<or> d = 1 \<or> d = 2 \<or> d = 3 \<or> d = 4 \<or> d = 5 \<or> d = 6 \<or> d = 7 \<or> d = 8
      \<or> d = 9" by arith
  then show ?thesis
    by (elim disjE) (simp_all add: digit_char_def)
qed

lemma nat_of_digits_snoc: "nat_of_digits b (s @ [c]) = nat_of_digits b s * b + digit_val c"
  by (simp add: nat_of_digits_def)

lemma str_nat_roundtrip: "nat_of_digits 10 (str_nat n) = n"
proof (induction n rule: str_nat.induct)
  case (1 n)
  show ?case
  proof (cases "n < 10")
    case True
    then show ?thesis
      by (subst str_nat.simps) (simp add: nat_of_digits_def digit_val_digit_char)
  next
    case False
    then show ?thesis
      using "1.IH" by (subst str_nat.simps) (simp add: nat_of_digits_snoc digit_val_digit_char)
  qed
qed

lemma str_nat_digits: "set (str_nat n) \<subseteq> set ''0123456789''"
proof (induction n rule: str_nat.induct)
  case (1 n)
  show ?case
  proof (cases "n < 10")
    case True
    then show ?thesis
      using digit_char_dec [of n] by (subst str_nat.simps) simp
  next
    case False
    then show ?thesis
      using "1.IH" digit_char_dec [of "n mod 10"] by (subst str_nat.simps) simp
  qed
qed

lemma hex_nat_roundtrip: "nat_of_digits 16 (hex_nat n) = n"
proof (induction n rule: hex_nat.induct)
  case (1 n)
  show ?case
  proof (cases "n < 16")
    case True
    then show ?thesis
      by (subst hex_nat.simps) (simp add: nat_of_digits_def digit_val_digit_char)
  next
    case False
    then show ?thesis
      using "1.IH" by (subst hex_nat.simps) (simp add: nat_of_digits_snoc digit_val_digit_char)
  qed
qed

lemma hex_nat_digits: "set (hex_nat n) \<subseteq> set ''0123456789abcdef''"
proof (induction n rule: hex_nat.induct)
  case (1 n)
  show ?case
  proof (cases "n < 16")
    case True
    then show ?thesis
      using digit_char_hex [of n] by (subst hex_nat.simps) simp
  next
    case False
    then show ?thesis
      using "1.IH" digit_char_hex [of "n mod 16"] by (subst hex_nat.simps) simp
  qed
qed

lemma hex_nat_length: "n < 16 ^ Suc k \<Longrightarrow> length (hex_nat n) \<le> Suc k"
proof (induction k arbitrary: n)
  case 0
  then show ?case by (subst hex_nat.simps) simp
next
  case (Suc k)
  show ?case
  proof (cases "n < 16")
    case True
    then show ?thesis by (subst hex_nat.simps) simp
  next
    case False
    from Suc.prems have "n div 16 < 16 ^ Suc k"
      by (simp add: less_mult_imp_div_less mult.commute)
    then have "length (hex_nat (n div 16)) \<le> Suc k" by (rule Suc.IH)
    with False show ?thesis by (subst hex_nat.simps) simp
  qed
qed

lemma nat_of_digits_zeros: "nat_of_digits b (replicate k CHR ''0'' @ s) = nat_of_digits b s"
proof -
  have "foldl (\<lambda>acc c. acc * b + digit_val c) 0 (replicate k CHR ''0'') = 0"
    by (induction k) (simp_all add: digit_val_def)
  then show ?thesis by (simp add: nat_of_digits_def)
qed

lemma format_hex_roundtrip: "nat_of_digits 16 (format_hex w n) = n"
  by (simp add: format_hex_def nat_of_digits_zeros hex_nat_roundtrip)

lemma format_hex_digits: "set (format_hex w n) \<subseteq> set ''0123456789abcdef''"
  using hex_nat_digits [of n] by (auto simp: format_hex_def)

lemma format_hex_length: "n < 16 ^ Suc k \<Longrightarrow> length (format_hex (Suc k) n) = Suc k"
  using hex_nat_length [of n k] by (simp add: format_hex_def)

lemma trace_id_hex_length: "length (format_hex 32 (unat (w :: 128 word))) = 32"
proof -
  have "unat w < 2 ^ 128" using unsigned_less [of w] by simp
  also have "(2::nat) ^ 128 = 16 ^ Suc 31" by simp
  finally show ?thesis using format_hex_length [of "unat w" 31] by simp
qed

lemma span_id_hex_length: "length (format_hex 16 (unat (w :: 64 word))) = 16"
proof -
  have "unat w < 2 ^ 64" using unsigned_less [of w] by simp
  also have "(2::nat) ^ 64 = 16 ^ Suc 15" by simp
  finally show ?thesis using format_hex_length [of "unat w" 15] by simp
qed

section \<open>The export drains the buffer\<close>

lemma spans_json_length: "length (fst (spans_json sps c)) = length sps"
proof (induction sps arbitrary: c)
  case Nil
  then show ?case by simp
next
  case (Cons sp sps)
  obtain j c' where a: "span_json sp c = (j, c')" by (cases "span_json sp c")
  obtain js c'' where b: "spans_json sps c' = (js, c'')" by (cases "spans_json sps c'")
  from Cons.IH [of c'] b have "length js = length sps" by simp
  with a b show ?case by simp
qed

lemma exported_spans_resource_spans_json: "exported_spans (resource_spans_json js) = Some js"
  by (simp add: resource_spans_json_def)

lemma otlp_get_resource_spans_fst:
  "fst (otlp_get_resource_spans b) = resource_spans_json (fst (spans_json (spans b) (clk b)))"
  by (simp add: otlp_get_resource_spans_def split: prod.splits)

lemma otlp_get_resource_spans_spans: "spans (snd (otlp_get_resource_spans b)) = []"
  by (simp add: otlp_get_resource_spans_def split: prod.splits)

lemma run_events_serialises:
  "(j, buf) \<in> set (fst (run_events evs b)) \<Longrightarrow> \<exists>c. j = resource_spans_json (fst (spans_json buf c))"
proof (induction evs b rule: run_events.induct)
  case (1 b)
  then show ?case by simp
next
  case (2 sp evs b)
  then show ?case by simp
next
  case (3 evs b)
  obtain j0 b' where g: "otlp_get_resource_spans b = (j0, b')" by (cases "otlp_get_resource_spans b")
  obtain outs b'' where r: "run_events evs b' = (outs, b'')" by (cases "run_events evs b'")
  from "3.prems" g r have "(j, buf) = (j0, spans b) \<or> (j, buf) \<in> set outs" by simp
  then show ?case
  proof
    assume "(j, buf) = (j0, spans b)"
    with g otlp_get_resource_spans_fst [of b] show ?thesis by auto
  next
    assume "(j, buf) \<in> set outs"
    with r have "(j, buf) \<in> set (fst (run_events evs b'))" by simp
    with "3.IH" [OF g [symmetric]] show ?thesis by simp
  qed
qed

lemma run_events_partition:
  "concat (map snd (fst (run_events evs b))) @ spans (snd (run_events evs b)) = spans b @ appended evs"
proof (induction evs b rule: run_events.induct)
  case (1 b)
  then show ?case by simp
next
  case (2 sp evs b)
  then show ?case by (simp add: buffer_append_def)
next
  case (3 evs b)
  obtain j0 b' where g: "otlp_get_resource_spans b = (j0, b')" by (cases "otlp_get_resource_spans b")
  obtain outs b'' where r: "run_events evs b' = (outs, b'')" by (cases "run_events evs b'")
  from g have e: "spans b' = []" using otlp_get_resource_spans_spans [of b] by simp
  from "3.IH" [OF g [symmetric]] r e have "concat (map snd outs) @ spans b'' = appended evs" by simp
  with g r show ?case by simp
qed

text \<open>
  C3. \<^verbatim>\<open>OTLPBackend.get_resource_spans\<close> leaves the buffer empty whatever it held, so a
  second call with nothing completed in between returns an empty span list. Over any
  interleaving of appends and exports, each export serialises exactly the buffer it
  finds, and the exported buffers followed by what is still buffered are the appended
  spans in order: no span is serialised by two exports.
\<close>

theorem get_resource_spans_drains_buffer:
  "spans (snd (otlp_get_resource_spans b)) = [] \<and>
   exported_spans (fst (otlp_get_resource_spans (snd (otlp_get_resource_spans b)))) = Some [] \<and>
   (\<forall>j buf. (j, buf) \<in> set (fst (run_events evs b)) \<longrightarrow>
      (\<exists>c. j = resource_spans_json (fst (spans_json buf c))) \<and>
      map_option length (exported_spans j) = Some (length buf)) \<and>
   concat (map snd (fst (run_events evs b))) @ spans (snd (run_events evs b)) = spans b @ appended evs"
proof (intro conjI allI impI)
  show "spans (snd (otlp_get_resource_spans b)) = []"
    by (rule otlp_get_resource_spans_spans)
  show "exported_spans (fst (otlp_get_resource_spans (snd (otlp_get_resource_spans b)))) = Some []"
    unfolding otlp_get_resource_spans_fst otlp_get_resource_spans_spans
    by (simp add: exported_spans_resource_spans_json del: exported_spans.simps)
  show "concat (map snd (fst (run_events evs b))) @ spans (snd (run_events evs b)) = spans b @ appended evs"
    by (rule run_events_partition)
next
  fix j buf
  assume a: "(j, buf) \<in> set (fst (run_events evs b))"
  then show "\<exists>c. j = resource_spans_json (fst (spans_json buf c))"
    by (rule run_events_serialises)
  then obtain c where "j = resource_spans_json (fst (spans_json buf c))" ..
  then show "map_option length (exported_spans j) = Some (length buf)"
    by (simp add: exported_spans_resource_spans_json spans_json_length del: exported_spans.simps)
qed

theorem get_resource_spans_drains_buffer_witness:
  "(\<exists>c. fst (otlp_get_resource_spans (example_otlp\<lparr>spans := [example_span]\<rparr>)) =
      resource_spans_json (fst (spans_json [example_span] c))) \<and>
   map_option length
     (exported_spans (fst (otlp_get_resource_spans (example_otlp\<lparr>spans := [example_span]\<rparr>)))) = Some 1"
proof -
  let ?b = "example_otlp\<lparr>spans := [example_span]\<rparr>"
  have m: "(fst (otlp_get_resource_spans ?b), [example_span]) \<in> set (fst (run_events [Export] ?b))"
    by (simp split: prod.splits)
  have "\<forall>j buf. (j, buf) \<in> set (fst (run_events [Export] ?b)) \<longrightarrow>
      (\<exists>c. j = resource_spans_json (fst (spans_json buf c))) \<and>
      map_option length (exported_spans j) = Some (length buf)"
    using get_resource_spans_drains_buffer [of ?b "[Export]"] by blast
  with m have "(\<exists>c. fst (otlp_get_resource_spans ?b) = resource_spans_json (fst (spans_json [example_span] c))) \<and>
      map_option length (exported_spans (fst (otlp_get_resource_spans ?b))) = Some (length [example_span])"
    by blast
  then show ?thesis by simp
qed

section \<open>The status code of an exported span\<close>

lemma span_json_status_constant:
  "field ''status'' (fst (span_json sp c)) = Some (JObj [(''code'', JStr ''STATUS_CODE_OK'')])"
  by (simp add: span_json_def split: prod.splits)

text \<open>
  C1 (the code departs from the claim). A scope on the OTLP backend whose body raises
  leaves one span with status \<open>ERROR\<close> in the buffer;
  \<^verbatim>\<open>OTLPBackend.get_resource_spans\<close> exports it with the literal status code
  \<^verbatim>\<open>STATUS_CODE_OK\<close>, while \<^verbatim>\<open>span_to_otlp_json\<close> of otel.py gives
  \<^verbatim>\<open>STATUS_CODE_ERROR\<close> for the same span.
\<close>

theorem error_span_exported_with_status_ok:
  "map (\<lambda>sp. status_code (span_status sp))
     (buffer (snd (with_create_span ''op'' [] (plain_body (Some (PyExc ValueError ''boom'')))
        (OTLPBackend example_otlp)))) = [ERROR] \<and>
   map_option (map (field ''status''))
     (exported_spans (fst (get_resource_spans
        (snd (with_create_span ''op'' [] (plain_body (Some (PyExc ValueError ''boom'')))
           (OTLPBackend example_otlp)))))) =
     Some [Some (JObj [(''code'', JStr ''STATUS_CODE_OK'')])] \<and>
   map (\<lambda>sp. field ''status'' (fst (span_to_otlp_json sp example_clock)))
     (buffer (snd (with_create_span ''op'' [] (plain_body (Some (PyExc ValueError ''boom'')))
        (OTLPBackend example_otlp)))) = [Some (JObj [(''code'', JStr ''STATUS_CODE_ERROR'')])]"
  by (simp add: with_create_span_def with_stmt_def cm_enter_def cm_exit_def create_span_start_def
      otlp_create_span_start_def start_span_def example_otlp_def example_tracer_def
      example_clock_def time_ns_def plain_body_def end_and_append_def span_end_def
      set_status_error_def buffer_append_def otlp_get_resource_spans_def span_json_def
      end_time_or_now_def resource_spans_json_def span_to_otlp_json_def)

section \<open>The shape of the export\<close>

lemma spans_json_nth:
  "i < length sps \<Longrightarrow> \<exists>c'. fst (spans_json sps c) ! i = fst (span_json (sps ! i) c')"
proof (induction sps arbitrary: c i)
  case Nil
  then show ?case by simp
next
  case (Cons sp sps)
  obtain j c1 where a: "span_json sp c = (j, c1)" by (cases "span_json sp c")
  obtain js c2 where b: "spans_json sps c1 = (js, c2)" by (cases "spans_json sps c1")
  show ?case
  proof (cases i)
    case 0
    with a b have "fst (spans_json (sp # sps) c) ! i = fst (span_json ((sp # sps) ! i) c)" by simp
    then show ?thesis ..
  next
    case (Suc k)
    with Cons.prems have "k < length sps" by simp
    from Cons.IH [OF this, of c1] obtain c' where "fst (spans_json sps c1) ! k = fst (span_json (sps ! k) c')" ..
    with a b Suc have "fst (spans_json (sp # sps) c) ! i = fst (span_json ((sp # sps) ! i) c')" by simp
    then show ?thesis ..
  qed
qed

lemma end_time_or_now_ended:
  "end_time sp = Some t \<Longrightarrow> t \<noteq> 0 \<Longrightarrow> fst (end_time_or_now sp c) = t"
  by (simp add: end_time_or_now_def)

lemma span_json_record:
  "fst (span_json sp c) =
     JObj [(''traceId'', JStr (format_hex 32 (unat (trace_id sp)))),
           (''spanId'', JStr (format_hex 16 (unat (span_id sp)))),
           (''name'', JStr (span_name sp)),
           (''kind'', JStr ''SPAN_KIND_INTERNAL''),
           (''startTimeUnixNano'', JStr (str_nat (start_time sp))),
           (''endTimeUnixNano'', JStr (str_nat (fst (end_time_or_now sp c)))),
           (''attributes'', JList (map (\<lambda>(k, v).
               JObj [(''key'', JStr k), (''value'', JObj [(''stringValue'', JStr v)])]) (attributes sp))),
           (''status'', JObj [(''code'', JStr ''STATUS_CODE_OK'')])]"
  by (simp add: span_json_def attributes_json_def split: prod.splits)

text \<open>
  C7. The result of \<^verbatim>\<open>OTLPBackend.get_resource_spans\<close> is the fixed resource block
  (service.name, service.version), then one scope block with the same name and version
  holding one record per buffered span, in order. The record of a span has the keys
  traceId, spanId, name, kind, startTimeUnixNano, endTimeUnixNano, attributes (and status,
  the subject of C1): the trace id as 32 hexadecimal characters and the span id as 16,
  both reading back to the span's identifiers, the span's name, the kind
  \<^verbatim>\<open>SPAN_KIND_INTERNAL\<close>, the start and end times as decimal digit strings reading back
  to the span's times, and the attributes as a list of key/value/stringValue objects.
\<close>

theorem export_record_shape:
  "fst (otlp_get_resource_spans b) =
     JObj [(''resource'',
             JObj [(''attributes'',
               JList [JObj [(''key'', JStr ''service.name''),
                            (''value'', JObj [(''stringValue'', JStr ''aws-api-mcp-server'')])],
                      JObj [(''key'', JStr ''service.version''),
                            (''value'', JObj [(''stringValue'', JStr ''0.2.14'')])]])]),
           (''scopeSpans'',
             JList [JObj [(''scope'', JObj [(''name'', JStr ''aws-api-mcp-server''),
                                            (''version'', JStr ''0.2.14'')]),
                          (''spans'', JList (fst (spans_json (spans b) (clk b))))]])] \<and>
   length (fst (spans_json (spans b) (clk b))) = length (spans b) \<and>
   (\<forall>i < length (spans b). \<exists>tid sid st en.
      fst (spans_json (spans b) (clk b)) ! i =
        JObj [(''traceId'', JStr tid), (''spanId'', JStr sid),
              (''name'', JStr (span_name (spans b ! i))),
              (''kind'', JStr ''SPAN_KIND_INTERNAL''),
              (''startTimeUnixNano'', JStr st), (''endTimeUnixNano'', JStr en),
              (''attributes'', JList (map (\<lambda>(k, v).
                  JObj [(''key'', JStr k), (''value'', JObj [(''stringValue'', JStr v)])])
                  (attributes (spans b ! i)))),
              (''status'', JObj [(''code'', JStr ''STATUS_CODE_OK'')])] \<and>
      length tid = 32 \<and> set tid \<subseteq> set ''0123456789abcdef'' \<and>
      nat_of_digits 16 tid = unat (trace_id (spans b ! i)) \<and>
      length sid = 16 \<and> set sid \<subseteq> set ''0123456789abcdef'' \<and>
      nat_of_digits 16 sid = unat (span_id (spans b ! i)) \<and>
      set st \<subseteq> set ''0123456789'' \<and> nat_of_digits 10 st = start_time (spans b ! i) \<and>
      set en \<subseteq> set ''0123456789'' \<and>
      (case end_time (spans b ! i) of
         None \<Rightarrow> True
       | Some t \<Rightarrow> t = 0 \<or> nat_of_digits 10 en = t))"
proof (intro conjI allI impI)
  show "fst (otlp_get_resource_spans b) =
     JObj [(''resource'',
             JObj [(''attributes'',
               JList [JObj [(''key'', JStr ''service.name''),
                            (''value'', JObj [(''stringValue'', JStr ''aws-api-mcp-server'')])],
                      JObj [(''key'', JStr ''service.version''),
                            (''value'', JObj [(''stringValue'', JStr ''0.2.14'')])]])]),
           (''scopeSpans'',
             JList [JObj [(''scope'', JObj [(''name'', JStr ''aws-api-mcp-server''),
                                            (''version'', JStr ''0.2.14'')]),
                          (''spans'', JList (fst (spans_json (spans b) (clk b))))]])]"
    by (simp add: otlp_get_resource_spans_fst resource_spans_json_def resource_block_def
        scope_block_def)
  show "length (fst (spans_json (spans b) (clk b))) = length (spans b)"
    by (rule spans_json_length)
next
  fix i
  assume i: "i < length (spans b)"
  let ?sp = "spans b ! i"
  from spans_json_nth [OF i, of "clk b"] obtain c'
    where r: "fst (spans_json (spans b) (clk b)) ! i = fst (span_json ?sp c')" ..
  let ?tid = "format_hex 32 (unat (trace_id ?sp))"
  let ?sid = "format_hex 16 (unat (span_id ?sp))"
  let ?st = "str_nat (start_time ?sp)"
  let ?en = "str_nat (fst (end_time_or_now ?sp c'))"
  have e: "case end_time ?sp of None \<Rightarrow> True | Some t \<Rightarrow> t = 0 \<or> nat_of_digits 10 ?en = t"
    by (simp add: str_nat_roundtrip end_time_or_now_def split: option.splits)
  have "fst (spans_json (spans b) (clk b)) ! i =
        JObj [(''traceId'', JStr ?tid), (''spanId'', JStr ?sid),
              (''name'', JStr (span_name ?sp)),
              (''kind'', JStr ''SPAN_KIND_INTERNAL''),
              (''startTimeUnixNano'', JStr ?st), (''endTimeUnixNano'', JStr ?en),
              (''attributes'', JList (map (\<lambda>(k, v).
                  JObj [(''key'', JStr k), (''value'', JObj [(''stringValue'', JStr v)])])
                  (attributes ?sp))),
              (''status'', JObj [(''code'', JStr ''STATUS_CODE_OK'')])] \<and>
      length ?tid = 32 \<and> set ?tid \<subseteq> set ''0123456789abcdef'' \<and>
      nat_of_digits 16 ?tid = unat (trace_id ?sp) \<and>
      length ?sid = 16 \<and> set ?sid \<subseteq> set ''0123456789abcdef'' \<and>
      nat_of_digits 16 ?sid = unat (span_id ?sp) \<and>
      set ?st \<subseteq> set ''0123456789'' \<and> nat_of_digits 10 ?st = start_time ?sp \<and>
      set ?en \<subseteq> set ''0123456789'' \<and>
      (case end_time ?sp of None \<Rightarrow> True | Some t \<Rightarrow> t = 0 \<or> nat_of_digits 10 ?en = t)"
    using r e
    by (simp only: span_json_record trace_id_hex_length span_id_hex_length format_hex_digits
        format_hex_roundtrip str_nat_digits str_nat_roundtrip simp_thms)
  then show "\<exists>tid sid st en.
      fst (spans_json (spans b) (clk b)) ! i =
        JObj [(''traceId'', JStr tid), (''spanId'', JStr sid),
              (''name'', JStr (span_name (spans b ! i))),
              (''kind'', JStr ''SPAN_KIND_INTERNAL''),
              (''startTimeUnixNano'', JStr st), (''endTimeUnixNano'', JStr en),
              (''attributes'', JList (map (\<lambda>(k, v).
                  JObj [(''key'', JStr k), (''value'', JObj [(''stringValue'', JStr v)])])
                  (attributes (spans b ! i)))),
              (''status'', JObj [(''code'', JStr ''STATUS_CODE_OK'')])] \<and>
      length tid = 32 \<and> set tid \<subseteq> set ''0123456789abcdef'' \<and>
      nat_of_digits 16 tid = unat (trace_id (spans b ! i)) \<and>
      length sid = 16 \<and> set sid \<subseteq> set ''0123456789abcdef'' \<and>
      nat_of_digits 16 sid = unat (span_id (spans b ! i)) \<and>
      set st \<subseteq> set ''0123456789'' \<and> nat_of_digits 10 st = start_time (spans b ! i) \<and>
      set en \<subseteq> set ''0123456789'' \<and>
      (case end_time (spans b ! i) of
         None \<Rightarrow> True
       | Some t \<Rightarrow> t = 0 \<or> nat_of_digits 10 en = t)"
    by blast
qed

theorem export_record_shape_witness:
  "\<exists>tid sid st en.
      fst (spans_json [example_span] example_clock) ! 0 =
        JObj [(''traceId'', JStr tid), (''spanId'', JStr sid),
              (''name'', JStr ''op''),
              (''kind'', JStr ''SPAN_KIND_INTERNAL''),
              (''startTimeUnixNano'', JStr st), (''endTimeUnixNano'', JStr en),
              (''attributes'', JList [JObj [(''key'', JStr ''k''),
                                            (''value'', JObj [(''stringValue'', JStr ''v'')])]]),
              (''status'', JObj [(''code'', JStr ''STATUS_CODE_OK'')])] \<and>
      length tid = 32 \<and> nat_of_digits 16 tid = 255 \<and>
      length sid = 16 \<and> nat_of_digits 16 sid = 18 \<and>
      nat_of_digits 10 st = 100 \<and> nat_of_digits 10 en = 101"
proof -
  let ?b = "example_otlp\<lparr>spans := [example_span]\<rparr>"
  have l: "(0::nat) < length (spans ?b)" by simp
  have "\<forall>i < length (spans ?b). \<exists>tid sid st en.
      fst (spans_json (spans ?b) (clk ?b)) ! i =
        JObj [(''traceId'', JStr tid), (''spanId'', JStr sid),
              (''name'', JStr (span_name (spans ?b ! i))),
              (''kind'', JStr ''SPAN_KIND_INTERNAL''),
              (''startTimeUnixNano'', JStr st), (''endTimeUnixNano'', JStr en),
              (''attributes'', JList (map (\<lambda>(k, v).
                  JObj [(''key'', JStr k), (''value'', JObj [(''stringValue'', JStr v)])])
                  (attributes (spans ?b ! i)))),
              (''status'', JObj [(''code'', JStr ''STATUS_CODE_OK'')])] \<and>
      length tid = 32 \<and> set tid \<subseteq> set ''0123456789abcdef'' \<and>
      nat_of_digits 16 tid = unat (trace_id (spans ?b ! i)) \<and>
      length sid = 16 \<and> set sid \<subseteq> set ''0123456789abcdef'' \<and>
      nat_of_digits 16 sid = unat (span_id (spans ?b ! i)) \<and>
      set st \<subseteq> set ''0123456789'' \<and> nat_of_digits 10 st = start_time (spans ?b ! i) \<and>
      set en \<subseteq> set ''0123456789'' \<and>
      (case end_time (spans ?b ! i) of
         None \<Rightarrow> True
       | Some t \<Rightarrow> t = 0 \<or> nat_of_digits 10 en = t)"
    using export_record_shape [of ?b] by blast
  with l obtain tid sid st en where
    "fst (spans_json (spans ?b) (clk ?b)) ! 0 =
        JObj [(''traceId'', JStr tid), (''spanId'', JStr sid),
              (''name'', JStr (span_name (spans ?b ! 0))),
              (''kind'', JStr ''SPAN_KIND_INTERNAL''),
              (''startTimeUnixNano'', JStr st), (''endTimeUnixNano'', JStr en),
              (''attributes'', JList (map (\<lambda>(k, v).
                  JObj [(''key'', JStr k), (''value'', JObj [(''stringValue'', JStr v)])])
                  (attributes (spans ?b ! 0)))),
              (''status'', JObj [(''code'', JStr ''STATUS_CODE_OK'')])] \<and>
      length tid = 32 \<and> set tid \<subseteq> set ''0123456789abcdef'' \<and>
      nat_of_digits 16 tid = unat (trace_id (spans ?b ! 0)) \<and>
      length sid = 16 \<and> set sid \<subseteq> set ''0123456789abcdef'' \<and>
      nat_of_digits 16 sid = unat (span_id (spans ?b ! 0)) \<and>
      set st \<subseteq> set ''0123456789'' \<and> nat_of_digits 10 st = start_time (spans ?b ! 0) \<and>
      set en \<subseteq> set ''0123456789'' \<and>
      (case end_time (spans ?b ! 0) of
         None \<Rightarrow> True
       | Some t \<Rightarrow> t = 0 \<or> nat_of_digits 10 en = t)"
    by blast
  then have "fst (spans_json [example_span] example_clock) ! 0 =
        JObj [(''traceId'', JStr tid), (''spanId'', JStr sid),
              (''name'', JStr ''op''),
              (''kind'', JStr ''SPAN_KIND_INTERNAL''),
              (''startTimeUnixNano'', JStr st), (''endTimeUnixNano'', JStr en),
              (''attributes'', JList [JObj [(''key'', JStr ''k''),
                                            (''value'', JObj [(''stringValue'', JStr ''v'')])]]),
              (''status'', JObj [(''code'', JStr ''STATUS_CODE_OK'')])] \<and>
      length tid = 32 \<and> nat_of_digits 16 tid = 255 \<and>
      length sid = 16 \<and> nat_of_digits 16 sid = 18 \<and>
      nat_of_digits 10 st = 100 \<and> nat_of_digits 10 en = 101"
    by (simp add: example_otlp_def example_span_def)
  then show ?thesis by blast
qed

section \<open>The inert backends\<close>

lemma noop_scope:
  "with_create_span nm attrs (plain_body fault) NoOpBackend =
     (case fault of None \<Rightarrow> Inr (Some None) | Some e \<Rightarrow> Inl e, NoOpBackend)"
  by (simp add: with_create_span_def with_stmt_def cm_enter_def cm_exit_def create_span_start_def
      noop_create_span_start_def plain_body_def split: option.splits)

lemma run_call_noop:
  "run_call c NoOpBackend =
     (case c of
        CreateSpan nm attrs fault \<Rightarrow> Scope (case fault of None \<Rightarrow> Inr (Some None) | Some e \<Rightarrow> Inl e)
      | GetResourceSpans \<Rightarrow> Spans (JObj [(''resource'', JObj []), (''scopeSpans'', JList [])]),
      NoOpBackend)"
  by (cases c) (simp_all add: noop_scope empty_resource_spans_def)

text \<open>
  C8. On the No-op backend every sequence of calls leaves the backend as it was and gives,
  call by call: for a \<^verbatim>\<open>create_span\<close> scope the handle \<open>None\<close> (or, when the body
  itself raises, the body's own fault) and for \<^verbatim>\<open>get_resource_spans\<close> the structure
  \<^verbatim>\<open>{'resource': {}, 'scopeSpans': []}\<close>. Entering and leaving the scope never raise,
  also through \<^verbatim>\<open>TraceManager.trace\<close>. The segment-recorder backend's
  \<^verbatim>\<open>get_resource_spans\<close> returns the same empty structure in every state and changes
  nothing.
\<close>

theorem noop_backend_inert:
  "run_calls cs NoOpBackend =
     (map (\<lambda>c. case c of
              CreateSpan nm attrs fault \<Rightarrow>
                Scope (case fault of None \<Rightarrow> Inr (Some None) | Some e \<Rightarrow> Inl e)
            | GetResourceSpans \<Rightarrow> Spans (JObj [(''resource'', JObj []), (''scopeSpans'', JList [])])) cs,
      NoOpBackend) \<and>
   cm_enter (create_span_start nm attrs) NoOpBackend = (Inr (None, NoOpPc NoOp_yield), NoOpBackend) \<and>
   cm_exit create_span_resume (NoOpPc NoOp_yield) exc NoOpBackend = (Inr False, NoOpBackend) \<and>
   with_trace nm attrs (plain_body None) \<lparr>backend = NoOpBackend\<rparr> =
     (Inr (Some None), \<lparr>backend = NoOpBackend\<rparr>) \<and>
   manager_get_resource_spans \<lparr>backend = NoOpBackend\<rparr> =
     (JObj [(''resource'', JObj []), (''scopeSpans'', JList [])], \<lparr>backend = NoOpBackend\<rparr>) \<and>
   get_resource_spans (XRayBackend xb) =
     (JObj [(''resource'', JObj []), (''scopeSpans'', JList [])], XRayBackend xb)"
proof (intro conjI)
  show "run_calls cs NoOpBackend =
     (map (\<lambda>c. case c of
              CreateSpan nm attrs fault \<Rightarrow>
                Scope (case fault of None \<Rightarrow> Inr (Some None) | Some e \<Rightarrow> Inl e)
            | GetResourceSpans \<Rightarrow> Spans (JObj [(''resource'', JObj []), (''scopeSpans'', JList [])])) cs,
      NoOpBackend)"
    by (induction cs) (simp_all add: run_call_noop)
  show "cm_enter (create_span_start nm attrs) NoOpBackend = (Inr (None, NoOpPc NoOp_yield), NoOpBackend)"
    by (simp add: cm_enter_def create_span_start_def noop_create_span_start_def)
  show "cm_exit create_span_resume (NoOpPc NoOp_yield) exc NoOpBackend = (Inr False, NoOpBackend)"
    by (cases exc) (simp_all add: cm_exit_def)
  show "with_trace nm attrs (plain_body None) \<lparr>backend = NoOpBackend\<rparr> =
     (Inr (Some None), \<lparr>backend = NoOpBackend\<rparr>)"
    by (simp add: with_trace_def with_stmt_def cm_enter_def cm_exit_def trace_start_def
        create_span_start_def noop_create_span_start_def plain_body_def)
  show "manager_get_resource_spans \<lparr>backend = NoOpBackend\<rparr> =
     (JObj [(''resource'', JObj []), (''scopeSpans'', JList [])], \<lparr>backend = NoOpBackend\<rparr>)"
    by (simp add: manager_get_resource_spans_def empty_resource_spans_def)
  show "get_resource_spans (XRayBackend xb) =
     (JObj [(''resource'', JObj []), (''scopeSpans'', JList [])], XRayBackend xb)"
    by (simp add: empty_resource_spans_def)
qed

section \<open>Backend selection\<close>

lemma char_lower_idem: "char_lower (char_lower c) = char_lower c"
proof (cases "c \<in> set ''ABCDEFGHIJKLMNOPQRSTUVWXYZ''")
  case True
  then have "c = CHR ''A'' \<or> c = CHR ''B'' \<or> c = CHR ''C'' \<or> c = CHR ''D'' \<or> c = CHR ''E''
      \<or> c = CHR ''F'' \<or> c = CHR ''G'' \<or> c = CHR ''H'' \<or> c = CHR ''I'' \<or> c = CHR ''J''
      \<or> c = CHR ''K'' \<or> c = CHR ''L'' \<or> c = CHR ''M'' \<or> c = CHR ''N'' \<or> c = CHR ''O''
      \<or> c = CHR ''P'' \<or> c = CHR ''Q'' \<or> c = CHR ''R'' \<or> c = CHR ''S'' \<or> c = CHR ''T''
      \<or> c = CHR ''U'' \<or> c = CHR ''V'' \<or> c = CHR ''W'' \<or> c = CHR ''X'' \<or> c = CHR ''Y''
      \<or> c = CHR ''Z''" by simp
  then show ?thesis
    by (elim disjE) (simp_all add: char_lower_def)
next
  case False
  then have "char_lower c = c" by (simp add: char_lower_def)
  then show ?thesis by simp
qed

lemma lower_idem: "lower (lower v) = lower v"
  by (simp add: lower_def char_lower_idem)

lemma getenv_upd: "getenv (m(k \<mapsto> v)) k d = v"
  by (simp add: getenv_def)

lemma getenv_upd_other: "k' \<noteq> k \<Longrightarrow> getenv (m(k \<mapsto> v)) k' d = getenv m k' d"
  by (simp add: getenv_def)

lemma otlp_init_backend_var:
  "otlp_init (env\<lparr>environ := (environ env)(''AWS_MCP_TRACING_BACKEND'' \<mapsto> v)\<rparr>) = otlp_init env"
  by (simp add: otlp_init_def getenv_upd_other Let_def split: option.splits)

lemma xray_init_environ: "xray_init (env\<lparr>environ := m\<rparr>) = xray_init env"
  by (simp add: xray_init_def)

lemma get_trace_backend_var:
  "get_trace_backend (env\<lparr>environ := (environ env)(''AWS_MCP_TRACING_BACKEND'' \<mapsto> v)\<rparr>) =
     (if lower v = ''otlp'' then map_sum id OTLPBackend (otlp_init env)
      else if lower v = ''xray'' then Inr (XRayBackend (xray_init env))
      else Inr NoOpBackend)"
  unfolding get_trace_backend_def Let_def otlp_init_backend_var xray_init_environ
  by (simp add: getenv_upd)

text \<open>
  C10. \<^verbatim>\<open>get_trace_backend\<close> lowercases the configuration value before comparing it:
  a value and its lowercase form construct the same backend, in every environment;
  \<^verbatim>\<open>OTLP\<close> constructs the OTLP backend and \<^verbatim>\<open>XRay\<close> the segment-recorder backend.
\<close>

theorem backend_selection_ignores_case:
  "get_trace_backend (env\<lparr>environ := (environ env)(''AWS_MCP_TRACING_BACKEND'' \<mapsto> v)\<rparr>) =
     get_trace_backend (env\<lparr>environ := (environ env)(''AWS_MCP_TRACING_BACKEND'' \<mapsto> lower v)\<rparr>) \<and>
   get_trace_backend (env\<lparr>environ := (environ env)(''AWS_MCP_TRACING_BACKEND'' \<mapsto> ''OTLP'')\<rparr>) =
     map_sum id OTLPBackend (otlp_init env) \<and>
   get_trace_backend (env\<lparr>environ := (environ env)(''AWS_MCP_TRACING_BACKEND'' \<mapsto> ''XRay'')\<rparr>) =
     Inr (XRayBackend (xray_init env))"
proof (intro conjI)
  show "get_trace_backend (env\<lparr>environ := (environ env)(''AWS_MCP_TRACING_BACKEND'' \<mapsto> v)\<rparr>) =
     get_trace_backend (env\<lparr>environ := (environ env)(''AWS_MCP_TRACING_BACKEND'' \<mapsto> lower v)\<rparr>)"
    by (simp only: get_trace_backend_var lower_idem)
  have "lower ''OTLP'' = ''otlp''" by (simp add: lower_def char_lower_def)
  then show "get_trace_backend (env\<lparr>environ := (environ env)(''AWS_MCP_TRACING_BACKEND'' \<mapsto> ''OTLP'')\<rparr>) =
     map_sum id OTLPBackend (otlp_init env)"
    by (simp add: get_trace_backend_var)
  have "lower ''XRay'' = ''xray''" by (simp add: lower_def char_lower_def)
  then show "get_trace_backend (env\<lparr>environ := (environ env)(''AWS_MCP_TRACING_BACKEND'' \<mapsto> ''XRay'')\<rparr>) =
     Inr (XRayBackend (xray_init env))"
    by (simp add: get_trace_backend_var)
qed

section \<open>The backend of a manager keeps its class\<close>

lemma close_gen_keeps:
  assumes "\<And>pc sg s. f (snd (resume pc sg s)) = f s"
  shows "f (snd (close_gen resume pc s)) = f s"
proof -
  obtain g s' where r: "resume pc (Throw (PyExc GeneratorExit [])) s = (g, s')"
    by (cases "resume pc (Throw (PyExc GeneratorExit [])) s")
  from assms [of pc "Throw (PyExc GeneratorExit [])" s] r have "f s' = f s" by simp
  with r show ?thesis by (cases g) (simp_all add: close_gen_def)
qed

lemma cm_enter_keeps:
  assumes "f (snd (start s)) = f s"
  shows "f (snd (cm_enter start s)) = f s"
proof -
  obtain g s' where r: "start s = (g, s')" by (cases "start s")
  with assms have "f s' = f s" by simp
  with r show ?thesis by (cases g) (simp_all add: cm_enter_def)
qed

lemma cm_exit_keeps:
  assumes k: "\<And>pc sg s. f (snd (resume pc sg s)) = f s"
  shows "f (snd (cm_exit resume pc exc s)) = f s"
proof -
  let ?sg = "case exc of None \<Rightarrow> Next | Some v \<Rightarrow> Throw v"
  obtain g s' where r: "resume pc ?sg s = (g, s')" by (cases "resume pc ?sg s")
  from k [of pc ?sg s] r have s': "f s' = f s" by simp
  show ?thesis
  proof (cases g)
    case (GYield h pc')
    obtain x s'' where c: "close_gen resume pc' s' = (x, s'')" by (cases "close_gen resume pc' s'")
    from close_gen_keeps [of f resume pc' s', OF k] c have "f s'' = f s'" by simp
    with s' r c GYield show ?thesis
      by (cases exc; cases x) (simp_all add: cm_exit_def)
  next
    case GReturn
    with s' r show ?thesis by (cases exc) (simp_all add: cm_exit_def)
  next
    case (GRaise e)
    with s' r show ?thesis by (cases exc) (simp_all add: cm_exit_def)
  qed
qed

lemma create_span_start_class: "class_of (snd (create_span_start nm attrs b)) = class_of b"
  by (cases b) (simp_all add: create_span_start_def split: prod.splits)

lemma create_span_resume_class: "class_of (snd (create_span_resume pc sg b)) = class_of b"
  by (induction pc sg b rule: create_span_resume.induct) (simp_all split: prod.splits)

lemma get_resource_spans_class: "class_of (snd (get_resource_spans b)) = class_of b"
  by (cases b) (simp_all split: prod.splits)

lemma trace_except_backend: "backend (snd (trace_except e m)) = backend m"
  by (simp add: trace_except_def)

lemma trace_start_class: "class_of (backend (snd (trace_start operation attrs m))) = class_of (backend m)"
proof -
  obtain r b' where e: "cm_enter (create_span_start operation attrs) (backend m) = (r, b')"
    by (cases "cm_enter (create_span_start operation attrs) (backend m)")
  from cm_enter_keeps [of class_of "create_span_start operation attrs" "backend m",
      OF create_span_start_class] e
  have "class_of b' = class_of (backend m)" by simp
  with e show ?thesis
    by (cases r) (simp_all add: trace_start_def trace_except_backend split: prod.splits)
qed

lemma trace_resume_class: "class_of (backend (snd (trace_resume pc sg m))) = class_of (backend m)"
proof (cases pc)
  case (Trace_yield_span spc)
  let ?exc = "case sg of Next \<Rightarrow> None | Throw v \<Rightarrow> Some v"
  obtain r b' where e: "cm_exit create_span_resume spc ?exc (backend m) = (r, b')"
    by (cases "cm_exit create_span_resume spc ?exc (backend m)")
  from cm_exit_keeps [of class_of create_span_resume spc ?exc "backend m",
      OF create_span_resume_class] e
  have "class_of b' = class_of (backend m)" by simp
  with e Trace_yield_span show ?thesis
    by (cases sg; cases r) (simp_all add: trace_except_backend)
next
  case Trace_yield_none
  then show ?thesis by (cases sg) simp_all
qed

lemma manager_get_resource_spans_class:
  "class_of (backend (snd (manager_get_resource_spans m))) = class_of (backend m)"
  using get_resource_spans_class [of "backend m"]
  by (cases "get_resource_spans (backend m)") (simp add: manager_get_resource_spans_def)

lemma get_trace_backend_unset:
  "environ env ''AWS_MCP_TRACING_BACKEND'' = None \<Longrightarrow> get_trace_backend env = Inr NoOpBackend"
  by (simp add: get_trace_backend_def getenv_def lower_def char_lower_def)

text \<open>
  C6, as the code has it. \<^verbatim>\<open>get_trace_backend\<close> decides on the lowercase form of the
  configuration value (\<^verbatim>\<open>disabled\<close> when the variable is unset): \<^verbatim>\<open>otlp\<close>
  constructs the OTLP backend, \<^verbatim>\<open>xray\<close> the segment-recorder backend, and every value
  whose lowercase form is neither of the two, \<^verbatim>\<open>disabled\<close> among them, the No-op
  backend. The process-wide manager holds the backend so constructed, and its operations
  (\<^verbatim>\<open>trace\<close>, entered or resumed, and \<^verbatim>\<open>get_resource_spans\<close>) never replace
  it by a backend of another class.
\<close>

theorem backend_selection_by_lowercase_value:
  "(lower (getenv (environ env) ''AWS_MCP_TRACING_BACKEND'' ''disabled'') = ''otlp'' \<longrightarrow>
      get_trace_backend env = map_sum id OTLPBackend (otlp_init env)) \<and>
   (lower (getenv (environ env) ''AWS_MCP_TRACING_BACKEND'' ''disabled'') = ''xray'' \<longrightarrow>
      get_trace_backend env = Inr (XRayBackend (xray_init env))) \<and>
   (lower (getenv (environ env) ''AWS_MCP_TRACING_BACKEND'' ''disabled'') \<noteq> ''otlp'' \<and>
    lower (getenv (environ env) ''AWS_MCP_TRACING_BACKEND'' ''disabled'') \<noteq> ''xray'' \<longrightarrow>
      get_trace_backend env = Inr NoOpBackend) \<and>
   (environ env ''AWS_MCP_TRACING_BACKEND'' = None \<or>
    environ env ''AWS_MCP_TRACING_BACKEND'' = Some ''disabled'' \<longrightarrow>
      get_trace_backend env = Inr NoOpBackend) \<and>
   class_of (backend (snd (trace_start operation attrs m))) = class_of (backend m) \<and>
   class_of (backend (snd (trace_resume pc sg m))) = class_of (backend m) \<and>
   class_of (backend (snd (manager_get_resource_spans m))) = class_of (backend m) \<and>
   map_sum id backend (make_trace_manager env) = get_trace_backend env"
proof (intro conjI impI)
  show "map_sum id backend (make_trace_manager env) = get_trace_backend env"
    by (cases "get_trace_backend env") (simp_all add: make_trace_manager_def)
  show "class_of (backend (snd (trace_start operation attrs m))) = class_of (backend m)"
    by (rule trace_start_class)
  show "class_of (backend (snd (trace_resume pc sg m))) = class_of (backend m)"
    by (rule trace_resume_class)
  show "class_of (backend (snd (manager_get_resource_spans m))) = class_of (backend m)"
    by (rule manager_get_resource_spans_class)
next
  assume "lower (getenv (environ env) ''AWS_MCP_TRACING_BACKEND'' ''disabled'') = ''otlp''"
  then show "get_trace_backend env = map_sum id OTLPBackend (otlp_init env)"
    by (simp add: get_trace_backend_def)
next
  assume "lower (getenv (environ env) ''AWS_MCP_TRACING_BACKEND'' ''disabled'') = ''xray''"
  then show "get_trace_backend env = Inr (XRayBackend (xray_init env))"
    by (simp add: get_trace_backend_def)
next
  assume "lower (getenv (environ env) ''AWS_MCP_TRACING_BACKEND'' ''disabled'') \<noteq> ''otlp'' \<and>
    lower (getenv (environ env) ''AWS_MCP_TRACING_BACKEND'' ''disabled'') \<noteq> ''xray''"
  then show "get_trace_backend env = Inr NoOpBackend"
    by (simp add: get_trace_backend_def)
next
  assume "environ env ''AWS_MCP_TRACING_BACKEND'' = None \<or>
    environ env ''AWS_MCP_TRACING_BACKEND'' = Some ''disabled''"
  then show "get_trace_backend env = Inr NoOpBackend"
    by (auto simp: get_trace_backend_def getenv_def lower_def char_lower_def)
qed

theorem backend_selection_by_lowercase_value_witness:
  "get_trace_backend (example_env\<lparr>environ := [''AWS_MCP_TRACING_BACKEND'' \<mapsto> ''xray'']\<rparr>) =
     Inr (XRayBackend \<lparr>recorder = Some example_recorder\<rparr>) \<and>
   get_trace_backend (example_env\<lparr>environ := [''AWS_MCP_TRACING_BACKEND'' \<mapsto> ''otlp'']\<rparr>) =
     Inr (OTLPBackend \<lparr>spans = [], tracer = Some example_tracer,
       span_processors = [ConsoleSpanExporter, OTLPSpanExporter ''http://localhost:4317''],
       clk = example_clock\<rparr>) \<and>
   get_trace_backend (example_env\<lparr>environ := [''AWS_MCP_TRACING_BACKEND'' \<mapsto> ''Nope'']\<rparr>) =
     Inr NoOpBackend \<and>
   get_trace_backend example_env = Inr NoOpBackend"
proof (intro conjI)
  let ?x = "example_env\<lparr>environ := [''AWS_MCP_TRACING_BACKEND'' \<mapsto> ''xray'']\<rparr>"
  have "lower (getenv (environ ?x) ''AWS_MCP_TRACING_BACKEND'' ''disabled'') = ''xray''"
    by (simp add: getenv_def lower_def char_lower_def)
  with backend_selection_by_lowercase_value [of ?x]
  have "get_trace_backend ?x = Inr (XRayBackend (xray_init ?x))" by blast
  then show "get_trace_backend ?x = Inr (XRayBackend \<lparr>recorder = Some example_recorder\<rparr>)"
    by (simp add: xray_init_def example_env_def)
next
  let ?o = "example_env\<lparr>environ := [''AWS_MCP_TRACING_BACKEND'' \<mapsto> ''otlp'']\<rparr>"
  have "lower (getenv (environ ?o) ''AWS_MCP_TRACING_BACKEND'' ''disabled'') = ''otlp''"
    by (simp add: getenv_def lower_def char_lower_def)
  with backend_selection_by_lowercase_value [of ?o]
  have "get_trace_backend ?o = map_sum id OTLPBackend (otlp_init ?o)" by blast
  then show "get_trace_backend ?o =
     Inr (OTLPBackend \<lparr>spans = [], tracer = Some example_tracer,
       span_processors = [ConsoleSpanExporter, OTLPSpanExporter ''http://localhost:4317''],
       clk = example_clock\<rparr>)"
    by (simp add: otlp_init_def example_env_def getenv_def)
next
  let ?n = "example_env\<lparr>environ := [''AWS_MCP_TRACING_BACKEND'' \<mapsto> ''Nope'']\<rparr>"
  have "lower (getenv (environ ?n) ''AWS_MCP_TRACING_BACKEND'' ''disabled'') \<noteq> ''otlp'' \<and>
    lower (getenv (environ ?n) ''AWS_MCP_TRACING_BACKEND'' ''disabled'') \<noteq> ''xray''"
    by (simp add: getenv_def lower_def char_lower_def)
  with backend_selection_by_lowercase_value [of ?n]
  show "get_trace_backend ?n = Inr NoOpBackend" by blast
next
  have "environ example_env ''AWS_MCP_TRACING_BACKEND'' = None \<or>
    environ example_env ''AWS_MCP_TRACING_BACKEND'' = Some ''disabled''"
    by (simp add: example_env_def)
  with backend_selection_by_lowercase_value [of example_env]
  show "get_trace_backend example_env = Inr NoOpBackend" by blast
qed

text \<open>
  C6 as stated fails: \<^verbatim>\<open>OTLP\<close> is none of \<^verbatim>\<open>disabled\<close>, \<^verbatim>\<open>otlp\<close>,
  \<^verbatim>\<open>xray\<close>, yet it selects the OTLP backend, not the No-op backend.
\<close>

theorem uppercase_value_not_noop:
  "''OTLP'' \<notin> {''disabled'', ''otlp'', ''xray''} \<and>
   get_trace_backend (example_env\<lparr>environ := [''AWS_MCP_TRACING_BACKEND'' \<mapsto> ''OTLP'']\<rparr>) \<noteq>
     Inr NoOpBackend \<and>
   map_sum id class_of
     (get_trace_backend (example_env\<lparr>environ := [''AWS_MCP_TRACING_BACKEND'' \<mapsto> ''OTLP'']\<rparr>)) =
     Inr OTLPClass"
  by (simp add: get_trace_backend_def getenv_def lower_def char_lower_def otlp_init_def
      example_env_def)

section \<open>Construction of the OTLP backend\<close>

text \<open>
  C9, as the code has it. When the OpenTelemetry packages cannot be imported the backend
  is still constructed, without tracer and without any exporter. When they can, the
  console exporter is attached first in every case; the network exporter toward the
  configured endpoint (\<^verbatim>\<open>http://localhost:4317\<close> when the variable is unset) is attached
  when its construction succeeds, and when that raises an \<^verbatim>\<open>Exception\<close> the backend is
  constructed with the console exporter alone.
\<close>

theorem otlp_construction:
  "(\<not> otel_importable env \<longrightarrow>
      otlp_init env =
        Inr \<lparr>spans = [], tracer = None, span_processors = [], clk = process_clock env\<rparr>) \<and>
   (otel_importable env \<and>
    otlp_exporter_fault env
      (getenv (environ env) ''OTEL_EXPORTER_OTLP_ENDPOINT'' ''http://localhost:4317'') = None \<longrightarrow>
      otlp_init env =
        Inr \<lparr>spans = [], tracer = Some (otel_tracer env),
             span_processors = [ConsoleSpanExporter, OTLPSpanExporter
               (getenv (environ env) ''OTEL_EXPORTER_OTLP_ENDPOINT'' ''http://localhost:4317'')],
             clk = process_clock env\<rparr>) \<and>
   (otel_importable env \<and>
    otlp_exporter_fault env
      (getenv (environ env) ''OTEL_EXPORTER_OTLP_ENDPOINT'' ''http://localhost:4317'') = Some e \<and>
    isinstance_Exception e \<longrightarrow>
      otlp_init env =
        Inr \<lparr>spans = [], tracer = Some (otel_tracer env),
             span_processors = [ConsoleSpanExporter], clk = process_clock env\<rparr>) \<and>
   (environ env ''OTEL_EXPORTER_OTLP_ENDPOINT'' = None \<longrightarrow>
      getenv (environ env) ''OTEL_EXPORTER_OTLP_ENDPOINT'' ''http://localhost:4317'' =
        ''http://localhost:4317'')"
  by (simp add: otlp_init_def getenv_def)

theorem otlp_construction_witness:
  "map_sum id span_processors
     (otlp_init (example_env\<lparr>otlp_exporter_fault := (\<lambda>ep. Some (PyExc ValueError ''bad endpoint''))\<rparr>)) =
     Inr [ConsoleSpanExporter] \<and>
   map_sum id span_processors (otlp_init example_env) =
     Inr [ConsoleSpanExporter, OTLPSpanExporter ''http://localhost:4317''] \<and>
   map_sum id tracer (otlp_init (example_env\<lparr>otel_importable := False\<rparr>)) = Inr None"
proof (intro conjI)
  let ?f = "example_env\<lparr>otlp_exporter_fault := (\<lambda>ep. Some (PyExc ValueError ''bad endpoint''))\<rparr>"
  have "otel_importable ?f \<and>
    otlp_exporter_fault ?f
      (getenv (environ ?f) ''OTEL_EXPORTER_OTLP_ENDPOINT'' ''http://localhost:4317'') =
      Some (PyExc ValueError ''bad endpoint'') \<and>
    isinstance_Exception (PyExc ValueError ''bad endpoint'')"
    by (simp add: example_env_def)
  with otlp_construction [of ?f "PyExc ValueError ''bad endpoint''"]
  have "otlp_init ?f =
        Inr \<lparr>spans = [], tracer = Some (otel_tracer ?f),
             span_processors = [ConsoleSpanExporter], clk = process_clock ?f\<rparr>" by blast
  then show "map_sum id span_processors (otlp_init ?f) = Inr [ConsoleSpanExporter]" by simp
next
  have a: "otel_importable example_env \<and>
    otlp_exporter_fault example_env
      (getenv (environ example_env) ''OTEL_EXPORTER_OTLP_ENDPOINT'' ''http://localhost:4317'') = None"
    by (simp add: example_env_def)
  have b: "environ example_env ''OTEL_EXPORTER_OTLP_ENDPOINT'' = None"
    by (simp add: example_env_def)
  from a otlp_construction [of example_env]
  have "otlp_init example_env =
        Inr \<lparr>spans = [], tracer = Some (otel_tracer example_env),
             span_processors = [ConsoleSpanExporter, OTLPSpanExporter
               (getenv (environ example_env) ''OTEL_EXPORTER_OTLP_ENDPOINT'' ''http://localhost:4317'')],
             clk = process_clock example_env\<rparr>" by blast
  moreover from b otlp_construction [of example_env]
  have "getenv (environ example_env) ''OTEL_EXPORTER_OTLP_ENDPOINT'' ''http://localhost:4317'' =
        ''http://localhost:4317''" by blast
  ultimately show "map_sum id span_processors (otlp_init example_env) =
     Inr [ConsoleSpanExporter, OTLPSpanExporter ''http://localhost:4317'']" by simp
next
  let ?m = "example_env\<lparr>otel_importable := False\<rparr>"
  have "\<not> otel_importable ?m" by simp
  with otlp_construction [of ?m]
  have "otlp_init ?m =
        Inr \<lparr>spans = [], tracer = None, span_processors = [], clk = process_clock ?m\<rparr>" by blast
  then show "map_sum id tracer (otlp_init ?m) = Inr None" by simp
qed

text \<open>
  C9 as stated fails: with the OpenTelemetry packages missing the backend is constructed
  with no exporter at all, so the console exporter is not attached.
\<close>

theorem missing_library_no_console_exporter:
  "map_sum id (\<lambda>b. ConsoleSpanExporter \<in> set (span_processors b))
     (otlp_init (example_env\<lparr>otel_importable := False\<rparr>)) = Inr False \<and>
   map_sum id tracer (otlp_init (example_env\<lparr>otel_importable := False\<rparr>)) = Inr None"
  by (simp add: otlp_init_def)

section \<open>Attribute routing\<close>

lemma clean_key_length: "length (clean_key k) = length k"
  by (simp add: clean_key_def replace_char_def)

lemma clean_key_nth:
  "j < length k \<Longrightarrow>
   clean_key k ! j = (if k ! j = CHR ''.'' \<or> k ! j = CHR ''-'' then CHR ''_'' else k ! j)"
  by (simp add: clean_key_def replace_char_def)

lemma route_entity_step_id: "ent_id (route_entity_step e kv) = ent_id e"
  by (simp add: route_entity_step_def)

lemma route_entity_Cons: "route_entity (kv # kvs) e = route_entity kvs (route_entity_step e kv)"
  by (simp add: route_entity_def)

lemma route_entity_Nil: "route_entity [] e = e"
  by (simp add: route_entity_def)

lemma route_entity_id: "ent_id (route_entity kvs e) = ent_id e"
  by (induction kvs arbitrary: e) (simp_all add: route_entity_Nil route_entity_Cons route_entity_step_id)

lemma route_entity_fixed:
  "ent_name (route_entity kvs e) = ent_name e \<and> is_subsegment (route_entity kvs e) = is_subsegment e
   \<and> ent_exceptions (route_entity kvs e) = ent_exceptions e"
  by (induction kvs arbitrary: e)
    (simp_all add: route_entity_Nil route_entity_Cons route_entity_step_def)

lemma route_attribute_update:
  "route_attribute i kv r = update_entity i (\<lambda>e. route_entity_step e kv) r"
  by (simp add: route_attribute_def route_entity_step_def put_annotation_def put_metadata_def
      update_entity_def Let_def)

lemma update_entity_twice:
  assumes "\<And>e. ent_id (g e) = ent_id e"
  shows "update_entity i f (update_entity i g r) = update_entity i (\<lambda>e. f (g e)) r"
  using assms by (simp add: update_entity_def)

lemma route_attributes_update:
  "route_attributes i kvs r = update_entity i (route_entity kvs) r"
proof (induction kvs arbitrary: r)
  case Nil
  have "map (\<lambda>e. if ent_id e = i then e else e) (entities r) = entities r"
    by (induction "entities r") simp_all
  then show ?case by (simp add: update_entity_def route_entity_Nil)
next
  case (Cons kv kvs)
  have "route_attributes i (kv # kvs) r =
      update_entity i (route_entity kvs) (update_entity i (\<lambda>e. route_entity_step e kv) r)"
    by (simp add: Cons.IH route_attribute_update)
  also have "\<dots> = update_entity i (\<lambda>e. route_entity kvs (route_entity_step e kv)) r"
    by (rule update_entity_twice) (rule route_entity_step_id)
  finally show ?case by (simp add: route_entity_Cons [abs_def])
qed

lemma route_entity_other_key:
  "key \<notin> set (map (\<lambda>kv. clean_key (fst kv)) kvs) \<Longrightarrow>
   annotations (route_entity kvs e) key = annotations e key \<and>
   metadata (route_entity kvs e) key = metadata e key"
proof (induction kvs arbitrary: e)
  case Nil
  then show ?case by (simp add: route_entity_Nil)
next
  case (Cons kv kvs)
  then have a: "key \<noteq> clean_key (fst kv)" and b: "key \<notin> set (map (\<lambda>kv. clean_key (fst kv)) kvs)"
    by auto
  from a have "annotations (route_entity_step e kv) key = annotations e key \<and>
      metadata (route_entity_step e kv) key = metadata e key"
    by (simp add: route_entity_step_def)
  with Cons.IH [OF b, of "route_entity_step e kv"] show ?case
    by (simp add: route_entity_Cons)
qed

lemma route_entity_lookup:
  "distinct (map (\<lambda>kv. clean_key (fst kv)) kvs) \<Longrightarrow> (k, v) \<in> set kvs \<Longrightarrow>
   annotations (route_entity kvs e) (clean_key k) =
     (if length (py_str v) \<le> 50 then Some (py_str v) else annotations e (clean_key k)) \<and>
   metadata (route_entity kvs e) (clean_key k) =
     (if length (py_str v) \<le> 50 then metadata e (clean_key k) else Some (py_str v))"
proof (induction kvs arbitrary: e)
  case Nil
  then show ?case by simp
next
  case (Cons kv kvs)
  from Cons.prems(1) have d: "distinct (map (\<lambda>kv. clean_key (fst kv)) kvs)"
    and n: "clean_key (fst kv) \<notin> set (map (\<lambda>kv. clean_key (fst kv)) kvs)" by simp_all
  show ?case
  proof (cases "kv = (k, v)")
    case True
    with n have "clean_key k \<notin> set (map (\<lambda>kv. clean_key (fst kv)) kvs)" by simp
    from route_entity_other_key [OF this, of "route_entity_step e kv"] True show ?thesis
      by (simp add: route_entity_Cons route_entity_step_def)
  next
    case False
    with Cons.prems(2) have m: "(k, v) \<in> set kvs" by simp
    then have "clean_key k \<in> set (map (\<lambda>kv. clean_key (fst kv)) kvs)" by force
    with n have "clean_key k \<noteq> clean_key (fst kv)" by metis
    then have "annotations (route_entity_step e kv) (clean_key k) = annotations e (clean_key k) \<and>
        metadata (route_entity_step e kv) (clean_key k) = metadata e (clean_key k)"
      by (simp add: route_entity_step_def)
    with Cons.IH [OF d m, of "route_entity_step e kv"] show ?thesis
      by (simp add: route_entity_Cons)
  qed
qed

lemma entity_of_update:
  assumes "\<And>e. ent_id (f e) = ent_id e"
  shows "entity_of i (update_entity i f r) = map_option f (entity_of i r)"
proof -
  have "find (\<lambda>e. ent_id e = i) (map (\<lambda>e. if ent_id e = i then f e else e) es) =
      map_option f (find (\<lambda>e. ent_id e = i) es)" for es
    using assms by (induction es) simp_all
  then show ?thesis by (simp add: entity_of_def update_entity_def)
qed

lemma update_entity_fresh:
  "fresh_ids r \<Longrightarrow> entities (update_entity (next_id r) f (r\<lparr>entities := entities r @ [e], next_id := n\<rparr>)) =
     entities r @ (if ent_id e = next_id r then [f e] else [e])"
proof -
  assume "fresh_ids r"
  then have "\<forall>x \<in> set (entities r). ent_id x \<noteq> next_id r"
    by (auto simp: fresh_ids_def list_all_iff)
  then have "map (\<lambda>x. if ent_id x = next_id r then f x else x) (entities r) = entities r"
    by (induction "entities r") (simp_all add: map_idI)
  then show ?thesis by (simp add: update_entity_def)
qed

lemma root_segment_opened:
  assumes "recorder x = Some r" and "rec_fault r = None"
  shows "xray_create_span_start ''aws_cli_command'' attrs x =
     (GYield (Some (SegmentH (next_id r))) (XRay_segment (next_id r)),
      x\<lparr>recorder := Some (r\<lparr>entities :=
           [route_entity attrs ((new_entity (next_id r) ''aws_cli_command'' False)
              \<lparr>annotations := [''service'' \<mapsto> ''aws-api-mcp-server'']\<rparr>)],
           next_id := Suc (next_id r)\<rparr>)\<rparr>)"
  using assms
  by (simp add: xray_create_span_start_def in_segment_enter_def route_attributes_update
      put_annotation_def update_entity_def new_entity_def)

lemma subsegment_opened:
  assumes "recorder x = Some r" and "rec_fault r = None" and "entities r \<noteq> []"
    and "fresh_ids r" and "nm \<noteq> ''aws_cli_command''"
  shows "xray_create_span_start nm attrs x =
     (GYield (Some (SegmentH (next_id r))) (XRay_subsegment (Some (next_id r))),
      x\<lparr>recorder := Some (r\<lparr>entities :=
           entities r @ [route_entity attrs (new_entity (next_id r) nm True)],
           next_id := Suc (next_id r)\<rparr>)\<rparr>)"
proof -
  from assms(2,3) have c: "current_segment r = Inr (Some (hd (entities r)))"
    by (cases "entities r") (simp_all add: current_segment_def)
  have u: "update_entity (next_id r) (route_entity attrs)
      (r\<lparr>entities := entities r @ [new_entity (next_id r) nm True], next_id := Suc (next_id r)\<rparr>) =
      r\<lparr>entities := entities r @ [route_entity attrs (new_entity (next_id r) nm True)],
        next_id := Suc (next_id r)\<rparr>"
    using update_entity_fresh [OF assms(4), where f = "route_entity attrs"
        and e = "new_entity (next_id r) nm True" and n = "Suc (next_id r)"]
    by (simp add: update_entity_def new_entity_def)
  from assms(1,2,3,5) show ?thesis
    by (simp add: xray_create_span_start_def c in_subsegment_enter_def
        route_attributes_update u)
qed

lemma clean_key_no_dot_dash: "CHR ''.'' \<notin> set (clean_key k) \<and> CHR ''-'' \<notin> set (clean_key k)"
  by (auto simp: clean_key_def replace_char_def)

lemma route_attribute_entity:
  assumes "entity_of i r = Some e0"
  shows "entity_of i (route_attribute i (k, v) r) = Some (route_entity_step e0 (k, v))"
  using assms entity_of_update [of "\<lambda>e. route_entity_step e (k, v)" i r]
  by (simp add: route_attribute_update route_entity_step_id)

lemma put_annotation_entity:
  assumes "entity_of i r = Some e0"
  shows "entity_of i (put_annotation i a b r) = Some (e0\<lparr>annotations := (annotations e0)(a \<mapsto> b)\<rparr>)"
  using assms entity_of_update [of "\<lambda>e. e\<lparr>annotations := (annotations e)(a \<mapsto> b)\<rparr>" i r]
  by (simp add: put_annotation_def)

lemma otel_segment_entity:
  assumes "entity_of i r = Some e0" and "attrs \<noteq> []"
  shows "entity_of i (otel_configure_segment i nm (Some attrs) r) =
     Some (route_entity attrs
       (e0\<lparr>annotations := (annotations e0)(''operation'' \<mapsto> nm, ''service'' \<mapsto> ''aws-api-mcp-server'')\<rparr>))"
proof -
  let ?r1 = "put_annotation i ''service'' ''aws-api-mcp-server'' (put_annotation i ''operation'' nm r)"
  have "entity_of i ?r1 =
      Some (e0\<lparr>annotations := (annotations e0)(''operation'' \<mapsto> nm, ''service'' \<mapsto> ''aws-api-mcp-server'')\<rparr>)"
    using put_annotation_entity [OF put_annotation_entity [OF assms(1)]] by simp
  then have "entity_of i (route_attributes i attrs ?r1) =
      Some (route_entity attrs
        (e0\<lparr>annotations := (annotations e0)(''operation'' \<mapsto> nm, ''service'' \<mapsto> ''aws-api-mcp-server'')\<rparr>))"
    using entity_of_update [of "route_entity attrs" i ?r1]
    by (simp add: route_attributes_update route_entity_id)
  with assms(2) show ?thesis by (simp add: otel_configure_segment_def)
qed

text \<open>
  C5. The cleaned key is the key with every \<open>.\<close> and \<open>-\<close> replaced by \<open>_\<close>, position
  by position. One step of the routing loop stores \<^verbatim>\<open>str(v)\<close> under the cleaned key
  among the annotations of the entity when \<^verbatim>\<open>len(str(v)) <= 50\<close> and among its metadata
  otherwise, and leaves the other of the two untouched. Hence, for an attribute dict whose
  cleaned keys are distinct and an attribute \<open>(k, v)\<close> of it: after the loop the value is
  found under the cleaned key among the annotations exactly when it has at most 50
  characters, and among the metadata otherwise; on the root segment and on a subsegment
  that \<^verbatim>\<open>XRayBackend.create_span\<close> has just opened it is then an annotation and no
  metadata, or metadata and no annotation (the root segment keeps its fixed
  \<^verbatim>\<open>service\<close> annotation). The segment set-up of otel.py routes in the same way,
  after its two fixed annotations.
\<close>

theorem attribute_routing:
  "length (clean_key k) = length k \<and>
   (\<forall>j < length k. clean_key k ! j =
       (if k ! j = CHR ''.'' \<or> k ! j = CHR ''-'' then CHR ''_'' else k ! j)) \<and>
   CHR ''.'' \<notin> set (clean_key k) \<and> CHR ''-'' \<notin> set (clean_key k) \<and>
   (entity_of i r = Some e0 \<longrightarrow>
      (\<exists>e. entity_of i (route_attribute i (k, v) r) = Some e \<and>
         annotations e =
           (if length (py_str v) \<le> 50 then (annotations e0)(clean_key k \<mapsto> py_str v)
            else annotations e0) \<and>
         metadata e =
           (if length (py_str v) \<le> 50 then metadata e0
            else (metadata e0)(clean_key k \<mapsto> py_str v)))) \<and>
   (distinct (map (\<lambda>kv. clean_key (fst kv)) attrs) \<and> (k, v) \<in> set attrs \<and>
    entity_of i r = Some e0 \<longrightarrow>
      (\<exists>e. entity_of i (route_attributes i attrs r) = Some e \<and>
         annotations e (clean_key k) =
           (if length (py_str v) \<le> 50 then Some (py_str v) else annotations e0 (clean_key k)) \<and>
         metadata e (clean_key k) =
           (if length (py_str v) \<le> 50 then metadata e0 (clean_key k) else Some (py_str v)))) \<and>
   (distinct (map (\<lambda>kv. clean_key (fst kv)) attrs) \<and> (k, v) \<in> set attrs \<and>
    recorder x = Some r \<and> rec_fault r = None \<longrightarrow>
      (\<exists>r' e. snd (xray_create_span_start ''aws_cli_command'' attrs x) = x\<lparr>recorder := Some r'\<rparr> \<and>
         entities r' = [e] \<and>
         annotations e (clean_key k) =
           (if length (py_str v) \<le> 50 then Some (py_str v)
            else if clean_key k = ''service'' then Some ''aws-api-mcp-server'' else None) \<and>
         metadata e (clean_key k) =
           (if length (py_str v) \<le> 50 then None else Some (py_str v)))) \<and>
   (distinct (map (\<lambda>kv. clean_key (fst kv)) attrs) \<and> (k, v) \<in> set attrs \<and>
    recorder x = Some r \<and> rec_fault r = None \<and> entities r \<noteq> [] \<and> fresh_ids r \<and>
    nm \<noteq> ''aws_cli_command'' \<longrightarrow>
      (\<exists>r' e. snd (xray_create_span_start nm attrs x) = x\<lparr>recorder := Some r'\<rparr> \<and>
         entities r' = entities r @ [e] \<and>
         annotations e (clean_key k) =
           (if length (py_str v) \<le> 50 then Some (py_str v) else None) \<and>
         metadata e (clean_key k) =
           (if length (py_str v) \<le> 50 then None else Some (py_str v)))) \<and>
   (distinct (map (\<lambda>kv. clean_key (fst kv)) attrs) \<and> (k, v) \<in> set attrs \<and>
    entity_of i r = Some e0 \<longrightarrow>
      (\<exists>e. entity_of i (otel_configure_segment i nm (Some attrs) r) = Some e \<and>
         annotations e (clean_key k) =
           (if length (py_str v) \<le> 50 then Some (py_str v)
            else if clean_key k = ''service'' then Some ''aws-api-mcp-server''
            else if clean_key k = ''operation'' then Some nm
            else annotations e0 (clean_key k)) \<and>
         metadata e (clean_key k) =
           (if length (py_str v) \<le> 50 then metadata e0 (clean_key k) else Some (py_str v))))"
proof (intro conjI allI impI)
  show "length (clean_key k) = length k" by (rule clean_key_length)
  show "CHR ''.'' \<notin> set (clean_key k)" by (simp add: clean_key_no_dot_dash)
  show "CHR ''-'' \<notin> set (clean_key k)" by (simp add: clean_key_no_dot_dash)
next
  fix j
  assume "j < length k"
  then show "clean_key k ! j = (if k ! j = CHR ''.'' \<or> k ! j = CHR ''-'' then CHR ''_'' else k ! j)"
    by (rule clean_key_nth)
next
  assume e0: "entity_of i r = Some e0"
  have "annotations (route_entity_step e0 (k, v)) =
           (if length (py_str v) \<le> 50 then (annotations e0)(clean_key k \<mapsto> py_str v)
            else annotations e0) \<and>
         metadata (route_entity_step e0 (k, v)) =
           (if length (py_str v) \<le> 50 then metadata e0
            else (metadata e0)(clean_key k \<mapsto> py_str v))"
    by (simp add: route_entity_step_def)
  with route_attribute_entity [OF e0, of k v]
  show "\<exists>e. entity_of i (route_attribute i (k, v) r) = Some e \<and>
         annotations e =
           (if length (py_str v) \<le> 50 then (annotations e0)(clean_key k \<mapsto> py_str v)
            else annotations e0) \<and>
         metadata e =
           (if length (py_str v) \<le> 50 then metadata e0
            else (metadata e0)(clean_key k \<mapsto> py_str v))"
    by blast
next
  assume a: "distinct (map (\<lambda>kv. clean_key (fst kv)) attrs) \<and> (k, v) \<in> set attrs \<and>
    entity_of i r = Some e0"
  then have d: "distinct (map (\<lambda>kv. clean_key (fst kv)) attrs)" and m: "(k, v) \<in> set attrs"
    and e0: "entity_of i r = Some e0" by simp_all
  have "entity_of i (route_attributes i attrs r) = Some (route_entity attrs e0)"
    using e0 entity_of_update [of "route_entity attrs" i r]
    by (simp add: route_attributes_update route_entity_id)
  with route_entity_lookup [OF d m, of e0]
  show "\<exists>e. entity_of i (route_attributes i attrs r) = Some e \<and>
          annotations e (clean_key k) =
            (if length (py_str v) \<le> 50 then Some (py_str v) else annotations e0 (clean_key k)) \<and>
          metadata e (clean_key k) =
            (if length (py_str v) \<le> 50 then metadata e0 (clean_key k) else Some (py_str v))"
    by blast
next
  assume a: "distinct (map (\<lambda>kv. clean_key (fst kv)) attrs) \<and> (k, v) \<in> set attrs \<and>
    recorder x = Some r \<and> rec_fault r = None"
  then have d: "distinct (map (\<lambda>kv. clean_key (fst kv)) attrs)" and m: "(k, v) \<in> set attrs"
    and p: "recorder x = Some r" and q: "rec_fault r = None" by simp_all
  let ?e0 = "(new_entity (next_id r) ''aws_cli_command'' False)
              \<lparr>annotations := [''service'' \<mapsto> ''aws-api-mcp-server'']\<rparr>"
  let ?r' = "r\<lparr>entities := [route_entity attrs ?e0], next_id := Suc (next_id r)\<rparr>"
  from p q have s: "snd (xray_create_span_start ''aws_cli_command'' attrs x) = x\<lparr>recorder := Some ?r'\<rparr>"
    by (simp add: root_segment_opened)
  have l: "annotations (route_entity attrs ?e0) (clean_key k) =
            (if length (py_str v) \<le> 50 then Some (py_str v)
             else if clean_key k = ''service'' then Some ''aws-api-mcp-server'' else None) \<and>
          metadata (route_entity attrs ?e0) (clean_key k) =
            (if length (py_str v) \<le> 50 then None else Some (py_str v))"
    using route_entity_lookup [OF d m, of ?e0] by (simp add: new_entity_def)
  have "entities ?r' = [route_entity attrs ?e0]" by simp
  with s l show "\<exists>r' e. snd (xray_create_span_start ''aws_cli_command'' attrs x) = x\<lparr>recorder := Some r'\<rparr> \<and>
          entities r' = [e] \<and>
          annotations e (clean_key k) =
            (if length (py_str v) \<le> 50 then Some (py_str v)
             else if clean_key k = ''service'' then Some ''aws-api-mcp-server'' else None) \<and>
          metadata e (clean_key k) =
            (if length (py_str v) \<le> 50 then None else Some (py_str v))"
    by blast
next
  assume a: "distinct (map (\<lambda>kv. clean_key (fst kv)) attrs) \<and> (k, v) \<in> set attrs \<and>
    recorder x = Some r \<and> rec_fault r = None \<and> entities r \<noteq> [] \<and> fresh_ids r \<and>
    nm \<noteq> ''aws_cli_command''"
  then have d: "distinct (map (\<lambda>kv. clean_key (fst kv)) attrs)" and m: "(k, v) \<in> set attrs"
    by simp_all
  let ?e0 = "new_entity (next_id r) nm True"
  let ?r' = "r\<lparr>entities := entities r @ [route_entity attrs ?e0], next_id := Suc (next_id r)\<rparr>"
  from a have s: "snd (xray_create_span_start nm attrs x) = x\<lparr>recorder := Some ?r'\<rparr>"
    by (simp add: subsegment_opened)
  have l: "annotations (route_entity attrs ?e0) (clean_key k) =
            (if length (py_str v) \<le> 50 then Some (py_str v) else None) \<and>
          metadata (route_entity attrs ?e0) (clean_key k) =
            (if length (py_str v) \<le> 50 then None else Some (py_str v))"
    using route_entity_lookup [OF d m, of ?e0] by (simp add: new_entity_def)
  have "entities ?r' = entities r @ [route_entity attrs ?e0]" by simp
  with s l show "\<exists>r' e. snd (xray_create_span_start nm attrs x) = x\<lparr>recorder := Some r'\<rparr> \<and>
          entities r' = entities r @ [e] \<and>
          annotations e (clean_key k) =
            (if length (py_str v) \<le> 50 then Some (py_str v) else None) \<and>
          metadata e (clean_key k) =
            (if length (py_str v) \<le> 50 then None else Some (py_str v))"
    by blast
next
  assume a: "distinct (map (\<lambda>kv. clean_key (fst kv)) attrs) \<and> (k, v) \<in> set attrs \<and>
    entity_of i r = Some e0"
  then have d: "distinct (map (\<lambda>kv. clean_key (fst kv)) attrs)" and m: "(k, v) \<in> set attrs"
    and e0: "entity_of i r = Some e0" by simp_all
  from m have ne: "attrs \<noteq> []" by auto
  let ?e1 = "e0\<lparr>annotations := (annotations e0)(''operation'' \<mapsto> nm, ''service'' \<mapsto> ''aws-api-mcp-server'')\<rparr>"
  have l: "annotations (route_entity attrs ?e1) (clean_key k) =
           (if length (py_str v) \<le> 50 then Some (py_str v)
            else if clean_key k = ''service'' then Some ''aws-api-mcp-server''
            else if clean_key k = ''operation'' then Some nm
            else annotations e0 (clean_key k)) \<and>
         metadata (route_entity attrs ?e1) (clean_key k) =
           (if length (py_str v) \<le> 50 then metadata e0 (clean_key k) else Some (py_str v))"
    using route_entity_lookup [OF d m, of ?e1] by simp
  with otel_segment_entity [OF e0 ne, of nm]
  show "\<exists>e. entity_of i (otel_configure_segment i nm (Some attrs) r) = Some e \<and>
         annotations e (clean_key k) =
           (if length (py_str v) \<le> 50 then Some (py_str v)
            else if clean_key k = ''service'' then Some ''aws-api-mcp-server''
            else if clean_key k = ''operation'' then Some nm
            else annotations e0 (clean_key k)) \<and>
         metadata e (clean_key k) =
           (if length (py_str v) \<le> 50 then metadata e0 (clean_key k) else Some (py_str v))"
    by blast
qed

theorem attribute_routing_witness:
  "(\<exists>r' e. snd (xray_create_span_start ''aws_cli_command''
        [(''aws.cli-command'', VStr (replicate 50 CHR ''x'')), (''big.key'', VStr (replicate 51 CHR ''x''))]
        \<lparr>recorder = Some example_recorder\<rparr>) = \<lparr>recorder = Some r'\<rparr> \<and>
      entities r' = [e] \<and>
      annotations e ''aws_cli_command'' = Some (replicate 50 CHR ''x'') \<and>
      metadata e ''aws_cli_command'' = None) \<and>
   (\<exists>r' e. snd (xray_create_span_start ''aws_cli_command''
        [(''aws.cli-command'', VStr (replicate 50 CHR ''x'')), (''big.key'', VStr (replicate 51 CHR ''x''))]
        \<lparr>recorder = Some example_recorder\<rparr>) = \<lparr>recorder = Some r'\<rparr> \<and>
      entities r' = [e] \<and>
      annotations e ''big_key'' = None \<and>
      metadata e ''big_key'' = Some (replicate 51 CHR ''x''))"
proof -
  let ?attrs = "[(''aws.cli-command'', VStr (replicate 50 CHR ''x'')), (''big.key'', VStr (replicate 51 CHR ''x''))]"
  let ?x = "\<lparr>recorder = Some example_recorder\<rparr>"
  have d: "distinct (map (\<lambda>kv. clean_key (fst kv)) ?attrs)"
    by (simp add: clean_key_def replace_char_def)
  have m1: "(''aws.cli-command'', VStr (replicate 50 CHR ''x'')) \<in> set ?attrs" by simp
  have m2: "(''big.key'', VStr (replicate 51 CHR ''x'')) \<in> set ?attrs" by simp
  have a: "recorder ?x = Some example_recorder \<and> rec_fault example_recorder = None"
    by (simp add: example_recorder_def)
  have k1: "clean_key ''aws.cli-command'' = ''aws_cli_command''"
    by (simp add: clean_key_def replace_char_def)
  have k2: "clean_key ''big.key'' = ''big_key''"
    by (simp add: clean_key_def replace_char_def)
  from attribute_routing [where k = "''aws.cli-command''" and v = "VStr (replicate 50 CHR ''x'')"
      and attrs = ?attrs and r = example_recorder and x = ?x] d m1 a
  have "\<exists>r' e. snd (xray_create_span_start ''aws_cli_command'' ?attrs ?x) = ?x\<lparr>recorder := Some r'\<rparr> \<and>
          entities r' = [e] \<and>
          annotations e (clean_key ''aws.cli-command'') =
            (if length (py_str (VStr (replicate 50 CHR ''x''))) \<le> 50
             then Some (py_str (VStr (replicate 50 CHR ''x'')))
             else if clean_key ''aws.cli-command'' = ''service'' then Some ''aws-api-mcp-server'' else None) \<and>
          metadata e (clean_key ''aws.cli-command'') =
            (if length (py_str (VStr (replicate 50 CHR ''x''))) \<le> 50 then None
             else Some (py_str (VStr (replicate 50 CHR ''x''))))"
    by blast
  then have first: "\<exists>r' e. snd (xray_create_span_start ''aws_cli_command'' ?attrs ?x) = \<lparr>recorder = Some r'\<rparr> \<and>
      entities r' = [e] \<and>
      annotations e ''aws_cli_command'' = Some (replicate 50 CHR ''x'') \<and>
      metadata e ''aws_cli_command'' = None"
    by (simp add: k1)
  from attribute_routing [where k = "''big.key''" and v = "VStr (replicate 51 CHR ''x'')"
      and attrs = ?attrs and r = example_recorder and x = ?x] d m2 a
  have "\<exists>r' e. snd (xray_create_span_start ''aws_cli_command'' ?attrs ?x) = ?x\<lparr>recorder := Some r'\<rparr> \<and>
          entities r' = [e] \<and>
          annotations e (clean_key ''big.key'') =
            (if length (py_str (VStr (replicate 51 CHR ''x''))) \<le> 50
             then Some (py_str (VStr (replicate 51 CHR ''x'')))
             else if clean_key ''big.key'' = ''service'' then Some ''aws-api-mcp-server'' else None) \<and>
          metadata e (clean_key ''big.key'') =
            (if length (py_str (VStr (replicate 51 CHR ''x''))) \<le> 50 then None
             else Some (py_str (VStr (replicate 51 CHR ''x''))))"
    by blast
  then have second: "\<exists>r' e. snd (xray_create_span_start ''aws_cli_command'' ?attrs ?x) = \<lparr>recorder = Some r'\<rparr> \<and>
      entities r' = [e] \<and>
      annotations e ''big_key'' = None \<and>
      metadata e ''big_key'' = Some (replicate 51 CHR ''x'')"
    by (simp add: k2)
  from first second show ?thesis by blast
qed

section \<open>Root segments and subsegments\<close>

lemma no_segment_inert:
  assumes "recorder x = Some r" and "rec_fault r = None" and "entities r = []"
    and "nm \<noteq> ''aws_cli_command''"
  shows "xray_create_span_start nm attrs x = (GYield None XRay_no_segment, x)"
  using assms by (simp add: xray_create_span_start_def current_segment_def)

lemma no_segment_scope:
  assumes "recorder x = Some r" and "rec_fault r = None" and "entities r = []"
    and "nm \<noteq> ''aws_cli_command''"
  shows "with_create_span nm attrs (plain_body None) (XRayBackend x) = (Inr (Some None), XRayBackend x)"
  using no_segment_inert [OF assms]
  by (simp add: with_create_span_def with_stmt_def cm_enter_def cm_exit_def create_span_start_def
      plain_body_def)

text \<open>
  C4. With a recorder that is present and creates segments: a \<^verbatim>\<open>create_span\<close> call
  named \<^verbatim>\<open>aws_cli_command\<close> opens a new root segment whatever was open before (the new
  segment is then the only open entity) and yields it. A call with any other name, when a
  segment is open, opens a subsegment on top of the open entities and yields it; when no
  segment is open, it yields \<open>None\<close>, raises nothing and leaves the recorder exactly as
  it was, on entry and on leaving the scope.
\<close>

theorem segment_nesting:
  assumes "recorder x = Some r" and "rec_fault r = None"
  shows
   "(\<exists>r' e. xray_create_span_start ''aws_cli_command'' attrs x =
        (GYield (Some (SegmentH (ent_id e))) (XRay_segment (ent_id e)), x\<lparr>recorder := Some r'\<rparr>) \<and>
      entities r' = [e] \<and> ent_name e = ''aws_cli_command'' \<and> \<not> is_subsegment e \<and>
      ent_id e = next_id r \<and> emitted r' = emitted r) \<and>
    (nm \<noteq> ''aws_cli_command'' \<and> entities r \<noteq> [] \<and> fresh_ids r \<longrightarrow>
      (\<exists>r' e. xray_create_span_start nm attrs x =
          (GYield (Some (SegmentH (ent_id e))) (XRay_subsegment (Some (ent_id e))),
           x\<lparr>recorder := Some r'\<rparr>) \<and>
        entities r' = entities r @ [e] \<and> ent_name e = nm \<and> is_subsegment e \<and>
        ent_id e = next_id r \<and> emitted r' = emitted r)) \<and>
    (nm \<noteq> ''aws_cli_command'' \<and> entities r = [] \<longrightarrow>
      xray_create_span_start nm attrs x = (GYield None XRay_no_segment, x) \<and>
      xray_create_span_resume XRay_no_segment Next x = (GReturn, x) \<and>
      with_create_span nm attrs (plain_body None) (XRayBackend x) =
        (Inr (Some None), XRayBackend x))"
proof (intro conjI impI)
  let ?e = "route_entity attrs ((new_entity (next_id r) ''aws_cli_command'' False)
              \<lparr>annotations := [''service'' \<mapsto> ''aws-api-mcp-server'']\<rparr>)"
  let ?r' = "r\<lparr>entities := [?e], next_id := Suc (next_id r)\<rparr>"
  have "xray_create_span_start ''aws_cli_command'' attrs x =
        (GYield (Some (SegmentH (ent_id ?e))) (XRay_segment (ent_id ?e)), x\<lparr>recorder := Some ?r'\<rparr>) \<and>
      entities ?r' = [?e] \<and> ent_name ?e = ''aws_cli_command'' \<and> \<not> is_subsegment ?e \<and>
      ent_id ?e = next_id r \<and> emitted ?r' = emitted r"
    using root_segment_opened [OF assms, of attrs]
    by (simp add: route_entity_id route_entity_fixed new_entity_def)
  then show "\<exists>r' e. xray_create_span_start ''aws_cli_command'' attrs x =
        (GYield (Some (SegmentH (ent_id e))) (XRay_segment (ent_id e)), x\<lparr>recorder := Some r'\<rparr>) \<and>
      entities r' = [e] \<and> ent_name e = ''aws_cli_command'' \<and> \<not> is_subsegment e \<and>
      ent_id e = next_id r \<and> emitted r' = emitted r"
    by blast
next
  assume a: "nm \<noteq> ''aws_cli_command'' \<and> entities r \<noteq> [] \<and> fresh_ids r"
  let ?e = "route_entity attrs (new_entity (next_id r) nm True)"
  let ?r' = "r\<lparr>entities := entities r @ [?e], next_id := Suc (next_id r)\<rparr>"
  from a have "xray_create_span_start nm attrs x =
     (GYield (Some (SegmentH (next_id r))) (XRay_subsegment (Some (next_id r))),
      x\<lparr>recorder := Some ?r'\<rparr>)"
    using subsegment_opened [OF assms, of nm attrs] by simp
  then have "xray_create_span_start nm attrs x =
          (GYield (Some (SegmentH (ent_id ?e))) (XRay_subsegment (Some (ent_id ?e))),
           x\<lparr>recorder := Some ?r'\<rparr>) \<and>
        entities ?r' = entities r @ [?e] \<and> ent_name ?e = nm \<and> is_subsegment ?e \<and>
        ent_id ?e = next_id r \<and> emitted ?r' = emitted r"
    by (simp add: route_entity_id route_entity_fixed new_entity_def)
  then show "\<exists>r' e. xray_create_span_start nm attrs x =
          (GYield (Some (SegmentH (ent_id e))) (XRay_subsegment (Some (ent_id e))),
           x\<lparr>recorder := Some r'\<rparr>) \<and>
        entities r' = entities r @ [e] \<and> ent_name e = nm \<and> is_subsegment e \<and>
        ent_id e = next_id r \<and> emitted r' = emitted r"
    by blast
next
  assume a: "nm \<noteq> ''aws_cli_command'' \<and> entities r = []"
  with assms show "xray_create_span_start nm attrs x = (GYield None XRay_no_segment, x)"
    by (simp add: no_segment_inert)
  show "xray_create_span_resume XRay_no_segment Next x = (GReturn, x)" by simp
  from a assms show "with_create_span nm attrs (plain_body None) (XRayBackend x) =
        (Inr (Some None), XRayBackend x)"
    by (simp add: no_segment_scope)
qed

theorem segment_nesting_witness:
  "xray_create_span_start ''describe_instances'' [(''k'', VStr ''v'')] \<lparr>recorder = Some example_recorder\<rparr> =
     (GYield None XRay_no_segment, \<lparr>recorder = Some example_recorder\<rparr>) \<and>
   with_create_span ''describe_instances'' [(''k'', VStr ''v'')] (plain_body None)
       (XRayBackend \<lparr>recorder = Some example_recorder\<rparr>) =
     (Inr (Some None), XRayBackend \<lparr>recorder = Some example_recorder\<rparr>) \<and>
   (\<exists>r' e. xray_create_span_start ''aws_cli_command'' [(''k'', VStr ''v'')]
        \<lparr>recorder = Some example_recorder\<rparr> =
        (GYield (Some (SegmentH 0)) (XRay_segment 0), \<lparr>recorder = Some r'\<rparr>) \<and>
      entities r' = [e] \<and> ent_name e = ''aws_cli_command'' \<and> \<not> is_subsegment e) \<and>
   (\<exists>r' e. xray_create_span_start ''describe_instances'' [(''k'', VStr ''v'')]
        \<lparr>recorder = Some (example_recorder\<lparr>entities := [new_entity 0 ''aws_cli_command'' False],
            next_id := 1\<rparr>)\<rparr> =
        (GYield (Some (SegmentH 1)) (XRay_subsegment (Some 1)), \<lparr>recorder = Some r'\<rparr>) \<and>
      entities r' = [new_entity 0 ''aws_cli_command'' False, e] \<and>
      ent_name e = ''describe_instances'' \<and> is_subsegment e)"
proof -
  let ?x = "\<lparr>recorder = Some example_recorder\<rparr>"
  let ?attrs = "[(''k'', VStr ''v'')]"
  have p: "recorder ?x = Some example_recorder" by simp
  have q: "rec_fault example_recorder = None" by (simp add: example_recorder_def)
  have n: "''describe_instances'' \<noteq> ''aws_cli_command'' \<and> entities example_recorder = []"
    by (simp add: example_recorder_def)
  note t = segment_nesting [OF p q, of ?attrs "''describe_instances''"]
  from t n have inert: "xray_create_span_start ''describe_instances'' ?attrs ?x = (GYield None XRay_no_segment, ?x) \<and>
      with_create_span ''describe_instances'' ?attrs (plain_body None) (XRayBackend ?x) =
        (Inr (Some None), XRayBackend ?x)"
    by blast
  from t have "\<exists>r' e. xray_create_span_start ''aws_cli_command'' ?attrs ?x =
        (GYield (Some (SegmentH (ent_id e))) (XRay_segment (ent_id e)), ?x\<lparr>recorder := Some r'\<rparr>) \<and>
      entities r' = [e] \<and> ent_name e = ''aws_cli_command'' \<and> \<not> is_subsegment e \<and>
      ent_id e = next_id example_recorder \<and> emitted r' = emitted example_recorder"
    by blast
  then have root: "\<exists>r' e. xray_create_span_start ''aws_cli_command'' ?attrs ?x =
        (GYield (Some (SegmentH 0)) (XRay_segment 0), \<lparr>recorder = Some r'\<rparr>) \<and>
      entities r' = [e] \<and> ent_name e = ''aws_cli_command'' \<and> \<not> is_subsegment e"
    by (auto simp: example_recorder_def)
  let ?r1 = "example_recorder\<lparr>entities := [new_entity 0 ''aws_cli_command'' False], next_id := 1\<rparr>"
  let ?x1 = "\<lparr>recorder = Some ?r1\<rparr>"
  have p1: "recorder ?x1 = Some ?r1" by simp
  have q1: "rec_fault ?r1 = None" by (simp add: example_recorder_def)
  have n1: "''describe_instances'' \<noteq> ''aws_cli_command'' \<and> entities ?r1 \<noteq> [] \<and> fresh_ids ?r1"
    by (simp add: fresh_ids_def new_entity_def)
  from segment_nesting [OF p1 q1, of ?attrs "''describe_instances''"] n1
  have "\<exists>r' e. xray_create_span_start ''describe_instances'' ?attrs ?x1 =
          (GYield (Some (SegmentH (ent_id e))) (XRay_subsegment (Some (ent_id e))),
           ?x1\<lparr>recorder := Some r'\<rparr>) \<and>
        entities r' = entities ?r1 @ [e] \<and> ent_name e = ''describe_instances'' \<and> is_subsegment e \<and>
        ent_id e = next_id ?r1 \<and> emitted r' = emitted ?r1"
    by blast
  then have sub: "\<exists>r' e. xray_create_span_start ''describe_instances'' ?attrs ?x1 =
        (GYield (Some (SegmentH 1)) (XRay_subsegment (Some 1)), \<lparr>recorder = Some r'\<rparr>) \<and>
      entities r' = [new_entity 0 ''aws_cli_command'' False, e] \<and>
      ent_name e = ''describe_instances'' \<and> is_subsegment e"
    by auto
  from inert root sub show ?thesis by blast
qed

section \<open>A fault raised inside a scope\<close>

lemma set_attributes_keeps:
  "is_sdk (set_attributes attrs sp) = is_sdk sp \<and> end_time (set_attributes attrs sp) = end_time sp \<and>
   span_status (set_attributes attrs sp) = span_status sp \<and>
   span_name (set_attributes attrs sp) = span_name sp"
  by (induction attrs sp rule: set_attributes.induct) simp_all

lemma otlp_enter:
  assumes "tracer ob = Some tr"
  shows "\<exists>sp ob1. cm_enter (create_span_start nm attrs) (OTLPBackend ob) =
      (Inr (Some (SpanH sp), OTLPPc (OTLP_yield_span sp)), OTLPBackend ob1) \<and>
    end_time sp = None \<and> is_sdk sp = sdk_spans tr \<and> span_name sp = nm \<and>
    status_code (span_status sp) = UNSET \<and> spans ob1 = spans ob"
proof -
  obtain sp0 ob1 where s: "start_span tr nm ob = (sp0, ob1)" by (cases "start_span tr nm ob")
  then have f: "end_time sp0 = None \<and> is_sdk sp0 = sdk_spans tr \<and> span_name sp0 = nm \<and>
      status_code (span_status sp0) = UNSET \<and> spans ob1 = spans ob"
    by (auto simp: start_span_def split: prod.splits)
  from assms s have "cm_enter (create_span_start nm attrs) (OTLPBackend ob) =
      (Inr (Some (SpanH (set_attributes attrs sp0)), OTLPPc (OTLP_yield_span (set_attributes attrs sp0))),
       OTLPBackend ob1)"
    by (simp add: cm_enter_def create_span_start_def otlp_create_span_start_def Let_def)
  with f show ?thesis by (metis set_attributes_keeps)
qed

lemma end_and_append_sdk:
  assumes "is_sdk sp" and "end_time sp = None"
  shows "\<exists>t. end_and_append sp b = b\<lparr>spans := spans b @ [sp\<lparr>end_time := Some t\<rparr>], clk := snd (time_ns (clk b))\<rparr>"
proof -
  from assms have "end_and_append sp b =
      b\<lparr>spans := spans b @ [sp\<lparr>end_time := Some (fst (time_ns (clk b)))\<rparr>], clk := snd (time_ns (clk b))\<rparr>"
    by (simp add: end_and_append_def span_end_def buffer_append_def case_prod_beta)
  then show ?thesis ..
qed

lemma otlp_exit_fault:
  "cm_exit create_span_resume (OTLPPc (OTLP_yield_span sp)) (Some e) (OTLPBackend ob2) =
     (Inr False, OTLPBackend (end_and_append
        (if isinstance_Exception e then set_status_error e sp else sp) ob2))"
  by (simp add: cm_exit_def)

lemma set_status_error_keeps:
  "is_sdk (set_status_error e sp) = is_sdk sp \<and> end_time (set_status_error e sp) = end_time sp"
  by (simp add: set_status_error_def)

lemma otlp_scope_fault:
  assumes "tracer ob = Some tr" and "sdk_spans tr"
    and en: "cm_enter (create_span_start nm attrs) (OTLPBackend ob) = (Inr (h, pc), s1)"
    and body: "body h s1 = (Inl e, OTLPBackend ob2)"
  shows "\<exists>sp t ob3. h = Some (SpanH sp) \<and>
      with_create_span nm attrs body (OTLPBackend ob) = (Inl e, OTLPBackend ob3) \<and>
      spans ob3 =
        spans ob2 @ [(if isinstance_Exception e then set_status_error e sp else sp)\<lparr>end_time := Some t\<rparr>]"
proof -
  from otlp_enter [OF assms(1), of nm attrs] en obtain sp where
    h: "h = Some (SpanH sp)" and pc: "pc = OTLPPc (OTLP_yield_span sp)"
    and sp: "end_time sp = None" "is_sdk sp = sdk_spans tr"
    by auto
  let ?sp = "if isinstance_Exception e then set_status_error e sp else sp"
  from sp assms(2) have "is_sdk ?sp" "end_time ?sp = None"
    by (simp_all add: set_status_error_keeps)
  from end_and_append_sdk [OF this, of ob2] obtain t where
    t: "end_and_append ?sp ob2 = ob2\<lparr>spans := spans ob2 @ [?sp\<lparr>end_time := Some t\<rparr>],
          clk := snd (time_ns (clk ob2))\<rparr>" ..
  have w: "with_create_span nm attrs body (OTLPBackend ob) = (Inl e, OTLPBackend (end_and_append ?sp ob2))"
    using en body pc by (simp add: with_create_span_def with_stmt_def otlp_exit_fault)
  have "h = Some (SpanH sp) \<and>
      with_create_span nm attrs body (OTLPBackend ob) = (Inl e, OTLPBackend (end_and_append ?sp ob2)) \<and>
      spans (end_and_append ?sp ob2) = spans ob2 @ [?sp\<lparr>end_time := Some t\<rparr>]"
    using h w by (simp add: t)
  then show ?thesis by blast
qed

lemma trace_enter_otlp:
  assumes "backend m = OTLPBackend ob" and "tracer ob = Some tr"
    and "cm_enter (trace_start nm attrs) m = (Inr (h, pc), m1)"
  shows "\<exists>sp. h = Some (SpanH sp) \<and> pc = Trace_yield_span (OTLPPc (OTLP_yield_span sp)) \<and>
      end_time sp = None \<and> is_sdk sp = sdk_spans tr"
proof -
  from otlp_enter [OF assms(2), of nm attrs] obtain sp ob1 where
    e: "cm_enter (create_span_start nm attrs) (OTLPBackend ob) =
      (Inr (Some (SpanH sp), OTLPPc (OTLP_yield_span sp)), OTLPBackend ob1)"
    and f: "end_time sp = None" "is_sdk sp = sdk_spans tr" by blast
  from e assms(1) have "trace_start nm attrs m =
      (GYield (Some (SpanH sp)) (Trace_yield_span (OTLPPc (OTLP_yield_span sp))),
       m\<lparr>backend := OTLPBackend ob1\<rparr>)"
    by (simp add: trace_start_def)
  with assms(3) f show ?thesis by (auto simp: cm_enter_def)
qed

lemma trace_exit_otlp_state:
  assumes "backend m2 = OTLPBackend ob2"
  shows "snd (cm_exit trace_resume (Trace_yield_span (OTLPPc (OTLP_yield_span sp))) (Some e) m2) =
     m2\<lparr>backend := OTLPBackend (end_and_append
        (if isinstance_Exception e then set_status_error e sp else sp) ob2)\<rparr>"
  using assms by (simp add: cm_exit_def otlp_exit_fault trace_except_def close_gen_def)

lemma with_stmt_fault_state:
  assumes "enter s = (Inr (h, pc), s1)" and "body h s1 = (Inl e, s2)"
  shows "snd (with_stmt enter exit body s) = snd (exit pc (Some e) s2)"
  using assms by (cases "exit pc (Some e) s2") (auto simp: with_stmt_def split: sum.splits)

lemma otlp_trace_fault:
  assumes "backend m = OTLPBackend ob" and "tracer ob = Some tr" and "sdk_spans tr"
    and en: "cm_enter (trace_start nm attrs) m = (Inr (h, pc), m1)"
    and body: "body h m1 = (Inl e, m2)" and "backend m2 = OTLPBackend ob2"
  shows "\<exists>sp t ob3. h = Some (SpanH sp) \<and>
      snd (with_trace nm attrs body m) = m2\<lparr>backend := OTLPBackend ob3\<rparr> \<and>
      spans ob3 =
        spans ob2 @ [(if isinstance_Exception e then set_status_error e sp else sp)\<lparr>end_time := Some t\<rparr>]"
proof -
  from trace_enter_otlp [OF assms(1,2) en] obtain sp where
    h: "h = Some (SpanH sp)" and pc: "pc = Trace_yield_span (OTLPPc (OTLP_yield_span sp))"
    and sp: "end_time sp = None" "is_sdk sp = sdk_spans tr" by blast
  let ?sp = "if isinstance_Exception e then set_status_error e sp else sp"
  from sp assms(3) have "is_sdk ?sp" "end_time ?sp = None"
    by (simp_all add: set_status_error_keeps)
  from end_and_append_sdk [OF this, of ob2] obtain t where
    t: "end_and_append ?sp ob2 = ob2\<lparr>spans := spans ob2 @ [?sp\<lparr>end_time := Some t\<rparr>],
          clk := snd (time_ns (clk ob2))\<rparr>" ..
  have w: "snd (with_trace nm attrs body m) = m2\<lparr>backend := OTLPBackend (end_and_append ?sp ob2)\<rparr>"
    unfolding with_trace_def
      with_stmt_fault_state [where enter = "cm_enter (trace_start nm attrs)" and s = m and body = body,
        OF en body] pc
    by (rule trace_exit_otlp_state) (rule assms(6))
  have "h = Some (SpanH sp) \<and>
      snd (with_trace nm attrs body m) = m2\<lparr>backend := OTLPBackend (end_and_append ?sp ob2)\<rparr> \<and>
      spans (end_and_append ?sp ob2) = spans ob2 @ [?sp\<lparr>end_time := Some t\<rparr>]"
    using h w by (simp add: t)
  then show ?thesis by blast
qed

lemma xray_exit_fault_state:
  assumes "recorder x2 = Some r2" and "entities r2 = [seg]" and "ent_id seg = i"
  shows "snd (cm_exit create_span_resume (XRayPc (XRay_segment i)) (Some e) (XRayBackend x2)) =
     XRayBackend (x2\<lparr>recorder := Some (r2\<lparr>entities := [],
        emitted := emitted r2 @ [seg\<lparr>ent_exceptions := ent_exceptions seg @ [e]\<rparr>]\<rparr>)\<rparr>)"
  using assms
  by (simp add: cm_exit_def xray_except_def on_recorder_def in_segment_exit_def add_exception_def
      update_entity_def end_segment_def close_gen_def)

lemma xray_scope_fault:
  assumes "recorder x = Some r" and "rec_fault r = None"
    and en: "cm_enter (create_span_start ''aws_cli_command'' attrs) (XRayBackend x) = (Inr (h, pc), s1)"
    and body: "body h s1 = (Inl e, XRayBackend x2)"
    and "recorder x2 = Some r2" and "entities r2 = [seg]" and "ent_id seg = next_id r"
  shows "snd (with_create_span ''aws_cli_command'' attrs body (XRayBackend x)) =
     XRayBackend (x2\<lparr>recorder := Some (r2\<lparr>entities := [],
        emitted := emitted r2 @ [seg\<lparr>ent_exceptions := ent_exceptions seg @ [e]\<rparr>]\<rparr>)\<rparr>)"
proof -
  from en root_segment_opened [OF assms(1,2), of attrs]
  have pc: "pc = XRayPc (XRay_segment (next_id r))"
    by (simp add: cm_enter_def create_span_start_def)
  show ?thesis
    unfolding with_create_span_def
      with_stmt_fault_state [where enter = "cm_enter (create_span_start ''aws_cli_command'' attrs)"
        and s = "XRayBackend x" and body = body, OF en body] pc
    by (rule xray_exit_fault_state) (rule assms)+
qed

lemma inert_scope_fault:
  "body None NoOpBackend = (Inl e, NoOpBackend) \<Longrightarrow>
   with_create_span nm attrs body NoOpBackend = (Inl e, NoOpBackend)"
  by (simp add: with_create_span_def with_stmt_def cm_enter_def cm_exit_def create_span_start_def
      noop_create_span_start_def)

lemma otlp_no_tracer_scope_fault:
  "tracer ob = None \<Longrightarrow> body None (OTLPBackend ob) = (Inl e, OTLPBackend ob2) \<Longrightarrow>
   with_create_span nm attrs body (OTLPBackend ob) = (Inl e, OTLPBackend ob2)"
  by (simp add: with_create_span_def with_stmt_def cm_enter_def cm_exit_def create_span_start_def
      otlp_create_span_start_def)

text \<open>
  What is finalized when the caller's operation raises a fault \<open>e\<close> inside a scope. The
  OTLP backend with a tracer that hands out SDK spans appends exactly one span to the
  buffer the operation left, ended and, when \<open>e\<close> is an \<^verbatim>\<open>Exception\<close>, with status
  \<open>ERROR\<close> and the fault's message, both under \<^verbatim>\<open>create_span\<close> and under
  \<^verbatim>\<open>TraceManager.trace\<close>; \<^verbatim>\<open>OTLPBackend.create_span\<close> lets the very same fault
  propagate. The segment-recorder backend attaches the fault to the root segment and
  finalizes that one segment. The No-op backend and the OTLP backend without tracer
  finalize nothing and let the same fault propagate.
\<close>

lemma fault_in_scope:
  "(tracer ob = Some tr \<and> sdk_spans tr \<and>
    cm_enter (create_span_start nm attrs) (OTLPBackend ob) = (Inr (h, pc), s1) \<and>
    body h s1 = (Inl e, OTLPBackend ob2) \<longrightarrow>
      (\<exists>sp t ob3. h = Some (SpanH sp) \<and>
         with_create_span nm attrs body (OTLPBackend ob) = (Inl e, OTLPBackend ob3) \<and>
         spans ob3 = spans ob2 @
           [(if isinstance_Exception e then set_status_error e sp else sp)\<lparr>end_time := Some t\<rparr>])) \<and>
   (backend m = OTLPBackend ob \<and> tracer ob = Some tr \<and> sdk_spans tr \<and>
    cm_enter (trace_start nm attrs) m = (Inr (h, tpc), m1) \<and>
    mbody h m1 = (Inl e, m2) \<and> backend m2 = OTLPBackend ob2 \<longrightarrow>
      (\<exists>sp t ob3. h = Some (SpanH sp) \<and>
         snd (with_trace nm attrs mbody m) = m2\<lparr>backend := OTLPBackend ob3\<rparr> \<and>
         spans ob3 = spans ob2 @
           [(if isinstance_Exception e then set_status_error e sp else sp)\<lparr>end_time := Some t\<rparr>])) \<and>
   (recorder x = Some r \<and> rec_fault r = None \<and>
    cm_enter (create_span_start ''aws_cli_command'' attrs) (XRayBackend x) = (Inr (h, pc), s1) \<and>
    body h s1 = (Inl e, XRayBackend x2) \<and>
    recorder x2 = Some r2 \<and> entities r2 = [seg] \<and> ent_id seg = next_id r \<longrightarrow>
      snd (with_create_span ''aws_cli_command'' attrs body (XRayBackend x)) =
        XRayBackend (x2\<lparr>recorder := Some (r2\<lparr>entities := [],
          emitted := emitted r2 @ [seg\<lparr>ent_exceptions := ent_exceptions seg @ [e]\<rparr>]\<rparr>)\<rparr>)) \<and>
   (body None NoOpBackend = (Inl e, NoOpBackend) \<longrightarrow>
      with_create_span nm attrs body NoOpBackend = (Inl e, NoOpBackend)) \<and>
   (tracer ob = None \<and> body None (OTLPBackend ob) = (Inl e, OTLPBackend ob2) \<longrightarrow>
      with_create_span nm attrs body (OTLPBackend ob) = (Inl e, OTLPBackend ob2))"
proof (intro conjI impI)
  assume "tracer ob = Some tr \<and> sdk_spans tr \<and>
    cm_enter (create_span_start nm attrs) (OTLPBackend ob) = (Inr (h, pc), s1) \<and>
    body h s1 = (Inl e, OTLPBackend ob2)"
  then show "\<exists>sp t ob3. h = Some (SpanH sp) \<and>
         with_create_span nm attrs body (OTLPBackend ob) = (Inl e, OTLPBackend ob3) \<and>
         spans ob3 = spans ob2 @
           [(if isinstance_Exception e then set_status_error e sp else sp)\<lparr>end_time := Some t\<rparr>]"
    using otlp_scope_fault [of ob tr nm attrs h pc s1 body e ob2] by blast
next
  assume "backend m = OTLPBackend ob \<and> tracer ob = Some tr \<and> sdk_spans tr \<and>
    cm_enter (trace_start nm attrs) m = (Inr (h, tpc), m1) \<and>
    mbody h m1 = (Inl e, m2) \<and> backend m2 = OTLPBackend ob2"
  then show "\<exists>sp t ob3. h = Some (SpanH sp) \<and>
         snd (with_trace nm attrs mbody m) = m2\<lparr>backend := OTLPBackend ob3\<rparr> \<and>
         spans ob3 = spans ob2 @
           [(if isinstance_Exception e then set_status_error e sp else sp)\<lparr>end_time := Some t\<rparr>]"
    using otlp_trace_fault [of m ob tr nm attrs h tpc m1 mbody e m2 ob2] by blast
next
  assume "recorder x = Some r \<and> rec_fault r = None \<and>
    cm_enter (create_span_start ''aws_cli_command'' attrs) (XRayBackend x) = (Inr (h, pc), s1) \<and>
    body h s1 = (Inl e, XRayBackend x2) \<and>
    recorder x2 = Some r2 \<and> entities r2 = [seg] \<and> ent_id seg = next_id r"
  then show "snd (with_create_span ''aws_cli_command'' attrs body (XRayBackend x)) =
        XRayBackend (x2\<lparr>recorder := Some (r2\<lparr>entities := [],
          emitted := emitted r2 @ [seg\<lparr>ent_exceptions := ent_exceptions seg @ [e]\<rparr>]\<rparr>)\<rparr>)"
    using xray_scope_fault [of x r attrs h pc s1 body e x2 r2 seg] by blast
next
  assume "body None NoOpBackend = (Inl e, NoOpBackend)"
  then show "with_create_span nm attrs body NoOpBackend = (Inl e, NoOpBackend)"
    by (rule inert_scope_fault)
next
  assume "tracer ob = None \<and> body None (OTLPBackend ob) = (Inl e, OTLPBackend ob2)"
  then show "with_create_span nm attrs body (OTLPBackend ob) = (Inl e, OTLPBackend ob2)"
    by (simp add: otlp_no_tracer_scope_fault)
qed

lemma fault_in_scope_example:
  "with_create_span ''op'' [] (plain_body (Some (PyExc ValueError ''boom''))) NoOpBackend =
     (Inl (PyExc ValueError ''boom''), NoOpBackend) \<and>
   (\<exists>sp t ob3.
      with_create_span ''op'' [] (plain_body (Some (PyExc ValueError ''boom'')))
        (OTLPBackend example_otlp) = (Inl (PyExc ValueError ''boom''), OTLPBackend ob3) \<and>
      spans ob3 = [(set_status_error (PyExc ValueError ''boom'') sp)\<lparr>end_time := Some t\<rparr>]) \<and>
   (\<exists>sp t ob3.
      backend (snd (with_trace ''op'' [] (plain_body (Some (PyExc ValueError ''boom'')))
        \<lparr>backend = OTLPBackend example_otlp\<rparr>)) = OTLPBackend ob3 \<and>
      spans ob3 = [(set_status_error (PyExc ValueError ''boom'') sp)\<lparr>end_time := Some t\<rparr>]) \<and>
   (\<exists>r3 seg. snd (with_create_span ''aws_cli_command'' []
        (plain_body (Some (PyExc ValueError ''boom''))) (XRayBackend \<lparr>recorder = Some example_recorder\<rparr>)) =
        XRayBackend \<lparr>recorder = Some r3\<rparr> \<and>
      entities r3 = [] \<and> emitted r3 = [seg] \<and> ent_name seg = ''aws_cli_command'' \<and>
      ent_exceptions seg = [PyExc ValueError ''boom''])"
proof -
  let ?e = "PyExc ValueError ''boom''"
  let ?body = "plain_body (Some ?e) :: handle option \<Rightarrow> trace_backend \<Rightarrow> (pyexc + handle option) \<times> trace_backend"
  let ?mbody = "plain_body (Some ?e) :: handle option \<Rightarrow> trace_manager \<Rightarrow> (pyexc + handle option) \<times> trace_manager"
  let ?m = "\<lparr>backend = OTLPBackend example_otlp\<rparr>"
  let ?x = "\<lparr>recorder = Some example_recorder\<rparr>"
  have t: "tracer example_otlp = Some example_tracer" by (simp add: example_otlp_def)
  have k: "sdk_spans example_tracer" by (simp add: example_tracer_def)
  from otlp_enter [OF t, of "''op''" "[]"] obtain sp ob1 where
    en: "cm_enter (create_span_start ''op'' []) (OTLPBackend example_otlp) =
      (Inr (Some (SpanH sp), OTLPPc (OTLP_yield_span sp)), OTLPBackend ob1)"
    and b: "spans ob1 = spans example_otlp" by blast
  have body: "?body (Some (SpanH sp)) (OTLPBackend ob1) = (Inl ?e, OTLPBackend ob1)"
    by (simp add: plain_body_def)
  have nb: "?body None NoOpBackend = (Inl ?e, NoOpBackend)"
    by (simp add: plain_body_def)
  from en have ten: "cm_enter (trace_start ''op'' []) ?m =
      (Inr (Some (SpanH sp), Trace_yield_span (OTLPPc (OTLP_yield_span sp))), ?m\<lparr>backend := OTLPBackend ob1\<rparr>)"
    by (simp add: cm_enter_def trace_start_def split: prod.splits gen_step.splits)
  have mb: "?mbody (Some (SpanH sp)) (?m\<lparr>backend := OTLPBackend ob1\<rparr>) =
      (Inl ?e, ?m\<lparr>backend := OTLPBackend ob1\<rparr>)"
    by (simp add: plain_body_def)
  let ?seg = "(new_entity 0 ''aws_cli_command'' False)\<lparr>annotations := [''service'' \<mapsto> ''aws-api-mcp-server'']\<rparr>"
  let ?r1 = "example_recorder\<lparr>entities := [?seg], next_id := Suc 0\<rparr>"
  let ?x1 = "?x\<lparr>recorder := Some ?r1\<rparr>"
  have p: "recorder ?x = Some example_recorder" by simp
  have q: "rec_fault example_recorder = None" by (simp add: example_recorder_def)
  have n0: "next_id example_recorder = 0" by (simp add: example_recorder_def)
  from root_segment_opened [OF p q, of "[]"]
  have xen: "cm_enter (create_span_start ''aws_cli_command'' []) (XRayBackend ?x) =
      (Inr (Some (SegmentH 0), XRayPc (XRay_segment 0)), XRayBackend ?x1)"
    by (simp add: cm_enter_def create_span_start_def n0 route_entity_Nil)
  have xb: "?body (Some (SegmentH 0)) (XRayBackend ?x1) = (Inl ?e, XRayBackend ?x1)"
    by (simp add: plain_body_def)
  have xs: "recorder ?x1 = Some ?r1 \<and> entities ?r1 = [?seg] \<and> ent_id ?seg = next_id example_recorder"
    by (simp add: n0 new_entity_def)
  note f = fault_in_scope [where ob = example_otlp and tr = example_tracer and nm = "''op''"
      and attrs = "[]" and h = "Some (SpanH sp)" and pc = "OTLPPc (OTLP_yield_span sp)"
      and ?s1.0 = "OTLPBackend ob1" and body = ?body and e = ?e and ?ob2.0 = ob1
      and m = ?m and tpc = "Trace_yield_span (OTLPPc (OTLP_yield_span sp))"
      and ?m1.0 = "?m\<lparr>backend := OTLPBackend ob1\<rparr>" and mbody = ?mbody
      and ?m2.0 = "?m\<lparr>backend := OTLPBackend ob1\<rparr>"]
  from f nb have first: "with_create_span ''op'' [] ?body NoOpBackend = (Inl ?e, NoOpBackend)"
    by blast
  from f t k en body have "\<exists>sp' t ob3. Some (SpanH sp) = Some (SpanH sp') \<and>
         with_create_span ''op'' [] ?body (OTLPBackend example_otlp) = (Inl ?e, OTLPBackend ob3) \<and>
         spans ob3 = spans ob1 @
           [(if isinstance_Exception ?e then set_status_error ?e sp' else sp')\<lparr>end_time := Some t\<rparr>]"
    by blast
  then obtain sp2 t2 ob4 where
    o2: "with_create_span ''op'' [] ?body (OTLPBackend example_otlp) = (Inl ?e, OTLPBackend ob4) \<and>
         spans ob4 = spans ob1 @
           [(if isinstance_Exception ?e then set_status_error ?e sp2 else sp2)\<lparr>end_time := Some t2\<rparr>]"
    by blast
  have "with_create_span ''op'' [] ?body (OTLPBackend example_otlp) = (Inl ?e, OTLPBackend ob4) \<and>
      spans ob4 = [(set_status_error ?e sp2)\<lparr>end_time := Some t2\<rparr>]"
    using o2 b by (simp add: example_otlp_def)
  then have second: "\<exists>sp t ob3.
      with_create_span ''op'' [] ?body (OTLPBackend example_otlp) = (Inl ?e, OTLPBackend ob3) \<and>
      spans ob3 = [(set_status_error ?e sp)\<lparr>end_time := Some t\<rparr>]"
    by blast
  have mk: "backend ?m = OTLPBackend example_otlp \<and>
      backend (?m\<lparr>backend := OTLPBackend ob1\<rparr>) = OTLPBackend ob1" by simp
  from f mk t k ten mb have "\<exists>sp' t ob3. Some (SpanH sp) = Some (SpanH sp') \<and>
         snd (with_trace ''op'' [] ?mbody ?m) =
           (?m\<lparr>backend := OTLPBackend ob1\<rparr>)\<lparr>backend := OTLPBackend ob3\<rparr> \<and>
         spans ob3 = spans ob1 @
           [(if isinstance_Exception ?e then set_status_error ?e sp' else sp')\<lparr>end_time := Some t\<rparr>]"
    by blast
  then obtain sp' t' ob3 where
    o: "snd (with_trace ''op'' [] ?mbody ?m) =
           (?m\<lparr>backend := OTLPBackend ob1\<rparr>)\<lparr>backend := OTLPBackend ob3\<rparr> \<and>
         spans ob3 = spans ob1 @
           [(if isinstance_Exception ?e then set_status_error ?e sp' else sp')\<lparr>end_time := Some t'\<rparr>]"
    by blast
  have "backend (snd (with_trace ''op'' [] ?mbody ?m)) = OTLPBackend ob3 \<and>
      spans ob3 = [(set_status_error ?e sp')\<lparr>end_time := Some t'\<rparr>]"
    using o b by (simp add: example_otlp_def)
  then have third: "\<exists>sp t ob3.
      backend (snd (with_trace ''op'' [] ?mbody ?m)) = OTLPBackend ob3 \<and>
      spans ob3 = [(set_status_error ?e sp)\<lparr>end_time := Some t\<rparr>]"
    by blast
  note g = fault_in_scope [where x = ?x and r = example_recorder and attrs = "[]"
      and h = "Some (SegmentH 0)" and pc = "XRayPc (XRay_segment 0)" and ?s1.0 = "XRayBackend ?x1"
      and body = ?body and e = ?e and ?x2.0 = ?x1 and ?r2.0 = ?r1 and seg = ?seg]
  from g p q xen xb xs
  have "snd (with_create_span ''aws_cli_command'' [] ?body (XRayBackend ?x)) =
        XRayBackend (?x1\<lparr>recorder := Some (?r1\<lparr>entities := [],
          emitted := emitted ?r1 @ [?seg\<lparr>ent_exceptions := ent_exceptions ?seg @ [?e]\<rparr>]\<rparr>)\<rparr>)"
    by blast
  then have fourth: "\<exists>r3 seg. snd (with_create_span ''aws_cli_command'' [] ?body (XRayBackend ?x)) =
        XRayBackend \<lparr>recorder = Some r3\<rparr> \<and>
      entities r3 = [] \<and> emitted r3 = [seg] \<and> ent_name seg = ''aws_cli_command'' \<and>
      ent_exceptions seg = [?e]"
    by (simp add: example_recorder_def new_entity_def)
  from first second third fourth show ?thesis by blast
qed

text \<open>
  The inert scopes record nothing: on the No-op backend a scope whose body raises
  finalizes no span or segment, and neither does a scope of the segment-recorder backend
  for a name other than the root operation name while no segment is open.
\<close>

lemma inert_scope_finalizes_nothing:
  "finalized (snd (with_create_span ''op'' [] (plain_body (Some (PyExc ValueError ''boom'')))
      NoOpBackend)) = finalized NoOpBackend \<and>
   fst (with_create_span ''op'' [] (plain_body (Some (PyExc ValueError ''boom''))) NoOpBackend) =
     Inl (PyExc ValueError ''boom'') \<and>
   finalized (snd (with_create_span ''describe_instances'' []
      (plain_body (Some (PyExc ValueError ''boom'')))
      (XRayBackend \<lparr>recorder = Some example_recorder\<rparr>))) =
     finalized (XRayBackend \<lparr>recorder = Some example_recorder\<rparr>)"
  by (simp add: with_create_span_def with_stmt_def cm_enter_def cm_exit_def create_span_start_def
      noop_create_span_start_def plain_body_def xray_create_span_start_def current_segment_def
      example_recorder_def xray_except_def close_gen_def)

text \<open>
  C2 (the code departs from the claim). Behind \<^verbatim>\<open>TraceManager.trace\<close> on the OTLP
  backend, a scope whose body raises \<^verbatim>\<open>ValueError('boom')\<close> finalizes exactly one span,
  with status \<open>ERROR\<close> and the fault's message, but the caller does not get its own fault
  back: the handler of lines 192-194 catches the body's exception as it leaves the
  \<^verbatim>\<open>with\<close> statement and yields a second time, so the context manager raises
  \<^verbatim>\<open>RuntimeError("generator didn't stop after throw()")\<close>. The same happens on the No-op
  backend behind \<^verbatim>\<open>trace\<close>, and in \<^verbatim>\<open>XRayBackend.create_span\<close> itself by the
  handlers of lines 157-159 and 175-177, for the root segment and for a subsegment under
  an open root, each finalized once with the fault attached.
  \<^verbatim>\<open>OTLPBackend.create_span\<close> used directly re-raises the very same fault (line 88).
\<close>

theorem caller_fault_replaced_by_runtime_error:
  "fst (with_trace ''op'' [] (plain_body (Some (PyExc ValueError ''boom'')))
     \<lparr>backend = OTLPBackend example_otlp\<rparr>) =
     Inl (PyExc RuntimeError ''generator didn't stop after throw()'') \<and>
   map (\<lambda>sp. (status_code (span_status sp), description (span_status sp)))
     (buffer (backend (snd (with_trace ''op'' [] (plain_body (Some (PyExc ValueError ''boom'')))
        \<lparr>backend = OTLPBackend example_otlp\<rparr>)))) = [(ERROR, Some ''boom'')] \<and>
   fst (with_trace ''op'' [] (plain_body (Some (PyExc ValueError ''boom''))) \<lparr>backend = NoOpBackend\<rparr>) =
     Inl (PyExc RuntimeError ''generator didn't stop after throw()'') \<and>
   fst (with_create_span ''aws_cli_command'' [] (plain_body (Some (PyExc ValueError ''boom'')))
     (XRayBackend \<lparr>recorder = Some example_recorder\<rparr>)) =
     Inl (PyExc RuntimeError ''generator didn't stop after throw()'') \<and>
   (case snd (with_create_span ''aws_cli_command'' [] (plain_body (Some (PyExc ValueError ''boom'')))
           (XRayBackend \<lparr>recorder = Some example_recorder\<rparr>)) of
      XRayBackend x \<Rightarrow>
        map_option (\<lambda>r. map (\<lambda>e. (ent_name e, is_subsegment e, ent_exceptions e)) (emitted r))
          (recorder x)
    | b \<Rightarrow> None) = Some [(''aws_cli_command'', False, [PyExc ValueError ''boom''])] \<and>
   fst (with_create_span ''describe_instances'' [] (plain_body (Some (PyExc ValueError ''boom'')))
     (XRayBackend \<lparr>recorder = Some (example_recorder\<lparr>entities :=
        [new_entity 0 ''aws_cli_command'' False], next_id := 1\<rparr>)\<rparr>)) =
     Inl (PyExc RuntimeError ''generator didn't stop after throw()'') \<and>
   (case snd (with_create_span ''describe_instances'' [] (plain_body (Some (PyExc ValueError ''boom'')))
           (XRayBackend \<lparr>recorder = Some (example_recorder\<lparr>entities :=
              [new_entity 0 ''aws_cli_command'' False], next_id := 1\<rparr>)\<rparr>)) of
      XRayBackend x \<Rightarrow>
        map_option (\<lambda>r. map (\<lambda>e. (ent_name e, is_subsegment e, ent_exceptions e)) (emitted r))
          (recorder x)
    | b \<Rightarrow> None) = Some [(''describe_instances'', True, [PyExc ValueError ''boom''])] \<and>
   fst (with_create_span ''op'' [] (plain_body (Some (PyExc ValueError ''boom'')))
     (OTLPBackend example_otlp)) = Inl (PyExc ValueError ''boom'')"
  by (simp add: with_trace_def with_create_span_def with_stmt_def cm_enter_def cm_exit_def
      trace_start_def create_span_start_def noop_create_span_start_def otlp_create_span_start_def
      start_span_def example_otlp_def example_tracer_def example_clock_def time_ns_def
      plain_body_def trace_except_def close_gen_def end_and_append_def span_end_def
      buffer_append_def set_status_error_def xray_create_span_start_def in_segment_enter_def
      in_subsegment_enter_def current_segment_def example_recorder_def xray_except_def
      on_recorder_def in_segment_exit_def in_subsegment_exit_def add_exception_def
      update_entity_def end_segment_def end_subsegment_def put_annotation_def new_entity_def)

end
